theory Spec2Isabelle
  imports Main "HOL-Library.Char_ord" "HOL-Library.List_Lexorder" "HOL-Library.Multiset"
begin

section \<open>Python strings and slices\<close>

text \<open>
  A Python \<open>str\<close> is modelled as a \<open>string\<close>: one \<open>char\<close> stands for one character of
  the source string, so \<open>length\<close> is Python's \<open>len\<close> and \<open>take 150\<close> is \<open>s[:150]\<close>.
  Strings are compared as Python compares them, character by character and a proper prefix
  first (the order of \<open>HOL-Library.List_Lexorder\<close> over \<open>HOL-Library.Char_ord\<close>).
  The three banner glyphs of the message template lie outside the 8-bit range and are
  written as their UTF-8 bytes; no property below depends on their length.
\<close>

definition nl :: string where
  "nl = [CHR 0x0A]"

definition dq :: string where
  "dq = [CHR 0x22]"

text \<open>\<open>sep.join(xs)\<close>\<close>

fun join :: "string \<Rightarrow> string list \<Rightarrow> string" where
  "join sep [] = []"
| "join sep [x] = x"
| "join sep (x # y # ys) = x @ sep @ join sep (y # ys)"

text \<open>The characters \<open>str.strip()\<close> removes, within the 8-bit range.\<close>

definition is_space :: "char \<Rightarrow> bool" where
  "is_space c = (c \<in> set [CHR 0x09, CHR 0x0A, CHR 0x0B, CHR 0x0C, CHR 0x0D,
                           CHR 0x1C, CHR 0x1D, CHR 0x1E, CHR 0x1F, CHR 0x20,
                           CHR 0x85, CHR 0xA0])"

definition lstrip :: "string \<Rightarrow> string" where
  "lstrip s = dropWhile is_space s"

definition rstrip :: "string \<Rightarrow> string" where
  "rstrip s = rev (dropWhile is_space (rev s))"

definition strip :: "string \<Rightarrow> string" where
  "strip s = rstrip (lstrip s)"

text \<open>\<open>str(n)\<close> for a non-negative integer: its decimal digits.\<close>

definition digit_char :: "nat \<Rightarrow> char" where
  "digit_char d =
     (if d = 0 then CHR ''0'' else if d = 1 then CHR ''1'' else if d = 2 then CHR ''2''
      else if d = 3 then CHR ''3'' else if d = 4 then CHR ''4'' else if d = 5 then CHR ''5''
      else if d = 6 then CHR ''6'' else if d = 7 then CHR ''7'' else if d = 8 then CHR ''8''
      else CHR ''9'')"

fun dec :: "nat \<Rightarrow> string" where
  "dec n = (if n < 10 then [digit_char n] else dec (n div 10) @ [digit_char (n mod 10)])"

declare dec.simps [simp del]

text \<open>
  \<open>xs[:n]\<close> for a Python integer \<open>n\<close>: the first \<open>n\<close> elements when \<open>n\<close> is not
  negative, all but the last \<open>-n\<close> elements when it is.
\<close>

definition slice_to :: "int \<Rightarrow> 'a list \<Rightarrow> 'a list" where
  "slice_to n xs =
     (if 0 \<le> n then take (nat n) xs else take (nat (int (length xs) + n)) xs)"

text \<open>\<open>d.get(k, default)\<close> on a dictionary held as an association list.\<close>

definition dict_get :: "('k \<times> 'v) list \<Rightarrow> 'k \<Rightarrow> 'v \<Rightarrow> 'v" where
  "dict_get d k dflt = (case map_of d k of Some v \<Rightarrow> v | None \<Rightarrow> dflt)"

text \<open>\<open>request.get(key, default)\<close> on an optional field of a request.\<close>

definition get_or :: "'a option \<Rightarrow> 'a \<Rightarrow> 'a" where
  "get_or field dflt = (case field of Some v \<Rightarrow> v | None \<Rightarrow> dflt)"

text \<open>
  A key whose value may also be Python's \<open>None\<close>: the key is absent, or it holds
  \<open>None\<close>, or it holds a value. \<open>d.get(key, default)\<close> gives the default only when
  the key is absent; for a key that holds \<open>None\<close> it gives \<open>None\<close>, which is the
  \<open>None\<close> of the option type here.
\<close>

datatype 'a entry = Absent | Null | Present 'a

definition entry_get :: "'a entry \<Rightarrow> 'a \<Rightarrow> 'a option" where
  "entry_get en dflt = (case en of Absent \<Rightarrow> Some dflt | Null \<Rightarrow> None | Present v \<Rightarrow> Some v)"

text \<open>
  An item of a list that is meant to hold strings: a \<open>str\<close>, or a value of another type,
  of which the name of the type is kept. \<open>sep.join(items)\<close> raises \<open>TypeError\<close> at the
  first item that is not a \<open>str\<close>. A computation that may raise has a result of type
  \<open>string + 'a\<close>: \<open>Inl\<close> carries \<open>str(e)\<close> of the exception raised.
\<close>

datatype item = Str string | NotStr string

fun first_not_str :: "nat \<Rightarrow> item list \<Rightarrow> (nat \<times> string) option" where
  "first_not_str i [] = None"
| "first_not_str i (Str s # xs) = first_not_str (i + 1) xs"
| "first_not_str i (NotStr ty # xs) = Some (i, ty)"

fun strings_of :: "item list \<Rightarrow> string list" where
  "strings_of [] = []"
| "strings_of (Str s # xs) = s # strings_of xs"
| "strings_of (NotStr ty # xs) = strings_of xs"

definition join_items :: "string \<Rightarrow> item list \<Rightarrow> string + string" where
  "join_items sep xs =
     (case first_not_str 0 xs of
        Some (i, ty) \<Rightarrow>
          Inl (''sequence item '' @ dec i @ '': expected str instance, '' @ ty @ '' found'')
      | None \<Rightarrow> Inr (join sep (strings_of xs)))"

text \<open>\<open>str(e)\<close> of the \<open>AttributeError\<close> that \<open>x.get(...)\<close> raises when \<open>x\<close> is \<open>None\<close>.\<close>

definition none_has_no_get :: string where
  "none_has_no_get =
     [CHR 0x27] @ ''NoneType'' @ [CHR 0x27] @ '' object has no attribute '' @
     [CHR 0x27] @ ''get'' @ [CHR 0x27]"


section \<open>Triage agent: risk level to priority\<close>

text \<open>\<open>TriageAgent._map_risk_to_priority\<close>\<close>

definition map_risk_to_priority :: "string \<Rightarrow> string" where
  "map_risk_to_priority risk_level =
     (let mapping = [(''CRITICAL'', ''URGENT''), (''MODERATE'', ''HIGH''), (''LOW'', ''NORMAL'')]
      in dict_get mapping risk_level ''HIGH'')"


section \<open>Data of the nurse notifier agent\<close>

text \<open>
  The dictionaries of the source are records whose fields are the dictionary keys. A key
  that the source reads with \<open>.get(key, default)\<close>, or inside a \<open>try\<close> block, is an
  optional field (\<open>None\<close>: the key is absent); a value that is present has the type the source
  annotates or documents for it, with these exceptions, where the source receives other
  values and behaves differently on them: the patient context and the assessment of a
  request may be \<open>None\<close> (the triage agent passes its own \<open>patient_context\<close> on, which
  is \<open>None\<close> by default); the risk level of an assessment, parsed from JSON, may be
  \<open>null\<close>; its list of symptoms may be \<open>null\<close> and may hold items that are not strings.
\<close>

record contact_info =
  phone :: "string option"
  email :: "string option"
  pager :: "string option"
  dashboard_id :: "string option"

record provider =
  prov_name :: string
  prov_role :: string
  prov_department :: string
  prov_contact :: contact_info
  prov_shift_schedule :: "(string \<times> string) list"
  prov_specializations :: "string list"
  prov_on_call :: "bool option"

record triage_assessment =
  ta_risk_level :: "string entry"
  ta_escalate :: "bool option"
  ta_symptoms_identified :: "item list entry"
  ta_reasoning :: "string option"
  ta_recommendations :: "string list option"
  ta_urgency_score :: "int option"
  ta_keywords_detected :: "string list option"

record patient_context =
  pc_name :: "string option"
  pc_condition :: "string option"

record patient_info =
  pi_name :: string
  pi_condition :: string
  pi_original_message :: string

record alert =
  alert_id :: string
  timestamp :: string
  priority :: string
  risk_level :: "string option"
  urgency_score :: int
  patient_info :: patient_info
  triage_assessment :: triage_assessment
  alert_message :: string
  status :: string
  response_required :: bool
  escalation_level :: int
  created_by :: string

record notification_result =
  nr_provider_name :: string
  nr_provider_role :: string
  nr_channels_used :: "string list"
  nr_status :: string
  nr_timestamp :: string
  nr_error :: "string option"

text \<open>
  The agent object: the provider directory (a Python dictionary, which keeps the order of
  insertion) and the alert history (a list, appended to and sorted in place).
\<close>

record agent_state =
  healthcare_providers :: "(string \<times> provider) list"
  alert_history :: "alert list"

text \<open>
  What an operation reads from outside the agent: the clock, as the two renderings the
  source takes of \<open>datetime.now()\<close> (one reading for each call of an operation), and, for
  each channel sender, whether the body of its \<open>try\<close> block raises for a given alert and
  address. The senders of the source are mocks whose transport calls are commented out;
  \<open>sender_raises\<close> stands for the exceptions of those calls and of the string formatting
  before them.
\<close>

record env =
  now_isoformat :: string
  now_strftime :: string
  sender_raises :: "string \<Rightarrow> alert \<Rightarrow> string \<Rightarrow> bool"

text \<open>The sender calls a dispatch makes, in order: channel, address, returned flag.\<close>

type_synonym send_log = "(string \<times> string \<times> bool) list"

text \<open>
  The requests of the operations: every key of the request dictionary is optional, and the
  assessment and the patient context of a request to send an alert may hold \<open>None\<close>.
\<close>

record send_alert_request =
  req_patient_message :: "string option"
  req_triage_assessment :: "triage_assessment entry"
  req_patient_context :: "patient_context entry"
  req_priority :: "string option"
  req_timestamp :: "string option"

record history_request =
  hr_limit :: "int option"
  hr_patient_name :: "string option"

record status_request =
  sr_provider_id :: "string option"
  sr_on_call :: "bool option"

record escalate_request =
  er_alert_id :: "string option"
  er_new_priority :: "string option"

text \<open>
  The response dictionaries, one constructor for each shape the source returns: the
  \<open>except Exception\<close> handler of each operation answers with status \<open>error\<close>. In
  \<open>get_alert_history\<close> and \<open>escalate_alert\<close> no input of the types above raises:
  \<open>send_alert\<close>, which \<open>escalate_alert\<close> calls, handles its own exceptions.
\<close>

datatype send_alert_response =
  AlertSent (sa_alert_id: string) (sa_priority: string) (sa_providers_notified: nat)
    (sa_notification_results: "notification_result list")
    (sa_expected_response_time_minutes: int) (sa_timestamp: string)
| SendAlertError (sa_message: string) (sa_error_details: string)

datatype history_response =
  HistorySuccess (hs_alerts: "alert list") (hs_total_alerts: nat) (hs_limit_applied: int)
| HistoryError string string

datatype status_response =
  StatusUpdated string "bool option"
| StatusNotFound string

datatype escalate_response =
  Escalated (es_alert_id: string) (es_old_priority: string) (es_new_priority: string)
    (es_escalation_level: int) (es_escalation_result: send_alert_response)
| EscalateNotFound string
| EscalateError string string

fun send_alert_status :: "send_alert_response \<Rightarrow> string" where
  "send_alert_status (AlertSent _ _ _ _ _ _) = ''alert_sent''"
| "send_alert_status (SendAlertError _ _) = ''error''"


fun escalate_status :: "escalate_response \<Rightarrow> string" where
  "escalate_status (Escalated _ _ _ _ _) = ''escalated''"
| "escalate_status (EscalateNotFound _) = ''not_found''"
| "escalate_status (EscalateError _ _) = ''error''"


section \<open>The provider directory\<close>

text \<open>
  \<open>NurseNotifierAgent._initialize_healthcare_providers\<close>: the two entries of the
  dictionary literal, then the dictionary.
\<close>

definition nurse_david :: provider where
  "nurse_david =
     \<lparr>prov_name = ''David Johnson'', prov_role = ''Registered Nurse'',
      prov_department = ''Orthopedic Floor'',
      prov_contact = \<lparr>phone = Some ''+1-555-0123'',
                      email = Some ''david.johnson@hospital.com'',
                      pager = Some ''555-1234'',
                      dashboard_id = Some ''nurse_dashboard_001''\<rparr>,
      prov_shift_schedule =
        [(''monday'', ''07:00-19:00''), (''tuesday'', ''07:00-19:00''),
         (''wednesday'', ''07:00-19:00''), (''thursday'', ''off''), (''friday'', ''off''),
         (''saturday'', ''07:00-19:00''), (''sunday'', ''07:00-19:00'')],
      prov_specializations = [''post-operative care'', ''orthopedic patients''],
      prov_on_call = Some True\<rparr>"

definition dr_smith :: provider where
  "dr_smith =
     \<lparr>prov_name = ''Dr. Sarah Smith'', prov_role = ''Orthopedic Surgeon'',
      prov_department = ''Orthopedic Surgery'',
      prov_contact = \<lparr>phone = Some ''+1-555-0456'',
                      email = Some ''sarah.smith@hospital.com'',
                      pager = Some ''555-5678'',
                      dashboard_id = Some ''doctor_dashboard_002''\<rparr>,
      prov_shift_schedule =
        [(''monday'', ''08:00-17:00''), (''tuesday'', ''08:00-17:00''),
         (''wednesday'', ''08:00-17:00''), (''thursday'', ''08:00-17:00''),
         (''friday'', ''08:00-17:00''), (''saturday'', ''on-call''), (''sunday'', ''off'')],
      prov_specializations = [''knee replacement'', ''hip replacement'', ''joint surgery''],
      prov_on_call = Some False\<rparr>"

definition initialize_healthcare_providers :: "(string \<times> provider) list" where
  "initialize_healthcare_providers = [(''nurse_david'', nurse_david), (''dr_smith'', dr_smith)]"

text \<open>\<open>NurseNotifierAgent.__init__\<close>\<close>

definition initial_state :: agent_state where
  "initial_state =
     \<lparr>healthcare_providers = initialize_healthcare_providers, alert_history = []\<rparr>"

record alert_config =
  urgent_response_time_minutes :: int
  high_response_time_minutes :: int
  normal_response_time_minutes :: int
  escalation_levels :: "string list"
  notification_channels :: "string list"

definition the_alert_config :: alert_config where
  "the_alert_config =
     \<lparr>urgent_response_time_minutes = 15, high_response_time_minutes = 60,
      normal_response_time_minutes = 240,
      escalation_levels = [''URGENT'', ''HIGH'', ''NORMAL''],
      notification_channels = [''dashboard'', ''sms'', ''email'', ''pager'']\<rparr>"


section \<open>Creating an alert\<close>

definition glyph_siren :: string where
  "glyph_siren = [CHR 0xF0, CHR 0x9F, CHR 0x9A, CHR 0xA8]"

definition glyph_warning :: string where
  "glyph_warning = [CHR 0xE2, CHR 0x9A, CHR 0xA0, CHR 0xEF, CHR 0xB8, CHR 0x8F]"

definition glyph_info :: string where
  "glyph_info = [CHR 0xE2, CHR 0x84, CHR 0xB9, CHR 0xEF, CHR 0xB8, CHR 0x8F]"

text \<open>
  \<open>NurseNotifierAgent._format_alert_message\<close>, in the order it runs: the banner, looked up
  in a dictionary with a default (a risk level \<open>None\<close> is not a key); the text of the
  symptoms, where \<open>join\<close> may raise; the template, in which an f-string renders \<open>None\<close>
  as \<open>None\<close>, and its \<open>strip()\<close>.
\<close>

definition urgency_indicator :: "string option \<Rightarrow> string" where
  "urgency_indicator risk =
     (case risk of
        Some r \<Rightarrow>
          dict_get [(''CRITICAL'', glyph_siren @ '' URGENT''),
                    (''MODERATE'', glyph_warning @ '' HIGH PRIORITY''),
                    (''LOW'', glyph_info @ '' ROUTINE'')]
            r (glyph_warning @ '' ATTENTION'')
      | None \<Rightarrow> glyph_warning @ '' ATTENTION'')"

definition py_str :: "string option \<Rightarrow> string" where
  "py_str v = (case v of Some x \<Rightarrow> x | None \<Rightarrow> ''None'')"

definition symptoms_text :: "item list option \<Rightarrow> string + string" where
  "symptoms_text symptoms =
     (case symptoms of
        None \<Rightarrow> Inr ''See details''
      | Some [] \<Rightarrow> Inr ''See details''
      | Some (x # xs) \<Rightarrow> join_items '', '' (x # xs))"

definition alert_template ::
    "env \<Rightarrow> string \<Rightarrow> string \<Rightarrow> string \<Rightarrow> string option \<Rightarrow> string" where
  "alert_template e patient_name patient_message text risk =
     strip
       (nl @ urgency_indicator risk @ '': Patient Alert - '' @ patient_name @ nl @
        nl @
        ''SYMPTOMS: '' @ text @ nl @
        ''PATIENT REPORT: '' @ dq @ take 150 patient_message @
           (if length patient_message > 150 then ''...'' else []) @ dq @ nl @
        nl @
        ''RISK LEVEL: '' @ py_str risk @ nl @
        ''IMMEDIATE ACTION: '' @
           (if risk = Some ''CRITICAL'' then ''Contact patient immediately''
            else ''Review and respond within expected timeframe'') @ nl @
        nl @
        ''Alert ID: '' @ now_strftime e @ nl @
        ''        '')"

definition format_alert_message ::
    "env \<Rightarrow> string \<Rightarrow> string \<Rightarrow> item list option \<Rightarrow> string option \<Rightarrow> string + string" where
  "format_alert_message e patient_name patient_message symptoms risk =
     (case symptoms_text symptoms of
        Inl ex \<Rightarrow> Inl ex
      | Inr text \<Rightarrow> Inr (alert_template e patient_name patient_message text risk))"

text \<open>
  \<open>NurseNotifierAgent._create_alert\<close>; \<open>history\<close> is \<open>self.alert_history\<close>, of which only
  the length is read. The patient context is a dictionary when \<open>send_alert\<close> calls it; the
  assessment may be \<open>None\<close>, and then its \<open>.get\<close> raises.
\<close>

definition create_alert ::
    "env \<Rightarrow> alert list \<Rightarrow> string \<Rightarrow> triage_assessment option \<Rightarrow> patient_context \<Rightarrow> string
       \<Rightarrow> string \<Rightarrow> string + alert" where
  "create_alert e history patient_message assessment context prio stamp =
     (let new_id = ''ALERT_'' @ dec (length history + 1) @ ''_'' @ now_strftime e;
          patient_name = get_or (pc_name context) ''Unknown Patient''
      in case assessment of
           None \<Rightarrow> Inl none_has_no_get
         | Some t \<Rightarrow>
             (let symptoms = entry_get (ta_symptoms_identified t) [];
                  risk = entry_get (ta_risk_level t) ''MODERATE'';
                  score = get_or (ta_urgency_score t) 5
              in case format_alert_message e patient_name patient_message symptoms risk of
                   Inl ex \<Rightarrow> Inl ex
                 | Inr message \<Rightarrow>
                     Inr \<lparr>alert_id = new_id,
                          timestamp = stamp,
                          priority = prio,
                          risk_level = risk,
                          urgency_score = score,
                          patient_info = \<lparr>pi_name = patient_name,
                                           pi_condition = get_or (pc_condition context) ''Unknown'',
                                           pi_original_message = patient_message\<rparr>,
                          triage_assessment = t,
                          alert_message = message,
                          status = ''sent'',
                          response_required = True,
                          escalation_level = 0,
                          created_by = ''triage_agent''\<rparr>))"


section \<open>Resolving the recipients\<close>

text \<open>
  The test \<open>provider and provider.get("on_call", False)\<close>: the provider is in the directory
  and its flag is true.
\<close>

definition is_available :: "(string \<times> provider) list \<Rightarrow> string \<Rightarrow> bool" where
  "is_available directory recipient_id =
     (case map_of directory recipient_id of
        Some p \<Rightarrow> prov_on_call p = Some True
      | None \<Rightarrow> False)"

text \<open>\<open>NurseNotifierAgent._determine_notification_recipients\<close>\<close>

definition determine_notification_recipients ::
    "(string \<times> provider) list \<Rightarrow> alert \<Rightarrow> string list" where
  "determine_notification_recipients directory a =
     (let recipients = [''nurse_david''];
          recipients = (if risk_level a = Some ''CRITICAL'' \<or> priority a = ''URGENT''
                        then recipients @ [''dr_smith''] else recipients);
          available_recipients = filter (is_available directory) recipients
      in if available_recipients = [] then map fst directory else available_recipients)"


section \<open>Dispatching to one provider\<close>

text \<open>
  The four channel senders. Each runs its body inside \<open>try\<close>, returns \<open>True\<close> at its end
  and \<open>False\<close> from its \<open>except Exception\<close> handler, so it never raises.
\<close>

definition send_dashboard_notification :: "env \<Rightarrow> alert \<Rightarrow> string \<Rightarrow> bool" where
  "send_dashboard_notification e a address =
     (if sender_raises e ''dashboard'' a address then False else True)"

definition send_sms_notification :: "env \<Rightarrow> alert \<Rightarrow> string \<Rightarrow> bool" where
  "send_sms_notification e a phone_number =
     (if sender_raises e ''sms'' a phone_number then False else True)"

definition send_pager_notification :: "env \<Rightarrow> alert \<Rightarrow> string \<Rightarrow> bool" where
  "send_pager_notification e a pager_number =
     (if sender_raises e ''pager'' a pager_number then False else True)"

definition send_email_notification :: "env \<Rightarrow> alert \<Rightarrow> string \<Rightarrow> bool" where
  "send_email_notification e a email_address =
     (if sender_raises e ''email'' a email_address then False else True)"

text \<open>
  A statement of the \<open>try\<close> block of the dispatcher maps the pair of the result under
  construction and the log of sender calls to the exception it raises, if any, and the pair
  as it is then. \<open>and_then\<close> is sequencing: a raised exception skips what follows.
\<close>

type_synonym dispatch_state = "notification_result \<times> send_log"

definition and_then ::
    "string option \<times> dispatch_state \<Rightarrow> (dispatch_state \<Rightarrow> string option \<times> dispatch_state)
       \<Rightarrow> string option \<times> dispatch_state" where
  "and_then r f = (case r of (Some ex, st) \<Rightarrow> (Some ex, st) | (None, st) \<Rightarrow> f st)"

text \<open>
  The two lines the source has for each channel:
  \<open>x_result = await self._send_x_notification(alert, contact_info[key])\<close>, where the
  subscript raises \<open>KeyError(key)\<close> (whose \<open>str\<close> is the key in single quotes) before the
  sender is called, and \<open>notification_result["channels_used"].append(channel)\<close>, which
  does not look at \<open>x_result\<close>.
\<close>

definition attempt ::
    "string \<Rightarrow> string \<Rightarrow> string option \<Rightarrow> (string \<Rightarrow> bool) \<Rightarrow> dispatch_state
       \<Rightarrow> string option \<times> dispatch_state" where
  "attempt channel key address sender st =
     (case address of
        None \<Rightarrow> (Some ([CHR 0x27] @ key @ [CHR 0x27]), st)
      | Some addr \<Rightarrow>
          (let x_result = sender addr
           in (None, ((fst st)\<lparr>nr_channels_used := nr_channels_used (fst st) @ [channel]\<rparr>,
                      snd st @ [(channel, addr, x_result)]))))"

text \<open>The body of the \<open>try\<close> block of \<open>_send_notification_to_provider\<close>.\<close>

definition notify_channels ::
    "env \<Rightarrow> alert \<Rightarrow> contact_info \<Rightarrow> dispatch_state \<Rightarrow> string option \<times> dispatch_state" where
  "notify_channels e a contact st =
     and_then
       (and_then
          (attempt ''dashboard'' ''dashboard_id'' (dashboard_id contact)
             (send_dashboard_notification e a) st)
          (\<lambda>st. if priority a \<in> set [''URGENT'', ''HIGH'']
                then and_then
                       (attempt ''sms'' ''phone'' (phone contact) (send_sms_notification e a) st)
                       (\<lambda>st. if priority a = ''URGENT''
                             then attempt ''pager'' ''pager'' (pager contact)
                                    (send_pager_notification e a) st
                             else (None, st))
                else (None, st)))
       (attempt ''email'' ''email'' (email contact) (send_email_notification e a))"

text \<open>\<open>NurseNotifierAgent._send_notification_to_provider\<close>, with the log of its sender calls.\<close>

definition send_notification_to_provider ::
    "env \<Rightarrow> alert \<Rightarrow> provider \<Rightarrow> notification_result \<times> send_log" where
  "send_notification_to_provider e a p =
     (let notification_result =
            \<lparr>nr_provider_name = prov_name p, nr_provider_role = prov_role p,
             nr_channels_used = [], nr_status = ''success'',
             nr_timestamp = now_isoformat e, nr_error = None\<rparr>
      in case notify_channels e a (prov_contact p) (notification_result, []) of
           (None, st) \<Rightarrow> st
         | (Some ex, (r, log)) \<Rightarrow> (r\<lparr>nr_status := ''error'', nr_error := Some ex\<rparr>, log))"


section \<open>Sending an alert\<close>

text \<open>\<open>NurseNotifierAgent._get_expected_response_time\<close>\<close>

definition get_expected_response_time :: "string \<Rightarrow> int" where
  "get_expected_response_time prio =
     dict_get [(''URGENT'', urgent_response_time_minutes the_alert_config),
               (''HIGH'', high_response_time_minutes the_alert_config),
               (''NORMAL'', normal_response_time_minutes the_alert_config)]
       prio (high_response_time_minutes the_alert_config)"

text \<open>The empty dictionary \<open>{}\<close>, as an assessment and as a patient context.\<close>

definition empty_assessment :: triage_assessment where
  "empty_assessment =
     \<lparr>ta_risk_level = Absent, ta_escalate = None, ta_symptoms_identified = Absent,
      ta_reasoning = None, ta_recommendations = None, ta_urgency_score = None,
      ta_keywords_detected = None\<rparr>"

definition empty_context :: patient_context where
  "empty_context = \<lparr>pc_name = None, pc_condition = None\<rparr>"

text \<open>
  \<open>NurseNotifierAgent.send_alert\<close>. The log line before the alert is created calls
  \<open>patient_context.get\<close>, which raises when the patient context is \<open>None\<close>; then
  \<open>_create_alert\<close> may raise. Both are caught by the \<open>except Exception\<close> handler, which
  answers with status \<open>error\<close>; nothing was appended before. After the alert is created
  nothing raises: the audit log, written last, has its own handler and leaves the agent as
  it is.
\<close>

definition send_alert ::
    "env \<Rightarrow> agent_state \<Rightarrow> send_alert_request \<Rightarrow> send_alert_response \<times> agent_state" where
  "send_alert e s request =
     (let patient_message = get_or (req_patient_message request) [];
          assessment = entry_get (req_triage_assessment request) empty_assessment;
          patient_context = entry_get (req_patient_context request) empty_context;
          prio = get_or (req_priority request) ''HIGH'';
          stamp = get_or (req_timestamp request) (now_isoformat e)
      in case patient_context of
           None \<Rightarrow> (SendAlertError ''Failed to send alert'' none_has_no_get, s)
         | Some context \<Rightarrow>
             (case create_alert e (alert_history s) patient_message assessment context prio stamp of
                Inl ex \<Rightarrow> (SendAlertError ''Failed to send alert'' ex, s)
              | Inr a \<Rightarrow>
                  (let providers_to_notify =
                         determine_notification_recipients (healthcare_providers s) a;
                       notification_results =
                         map (\<lambda>p. fst (send_notification_to_provider e a p))
                           (List.map_filter (map_of (healthcare_providers s))
                              providers_to_notify)
                   in (AlertSent (alert_id a) prio (length notification_results)
                         notification_results (get_expected_response_time prio) stamp,
                       s\<lparr>alert_history := alert_history s @ [a]\<rparr>))))"


section \<open>The alert history\<close>

text \<open>
  \<open>list.sort(key=lambda x: x["timestamp"], reverse=True)\<close>: Python's sort is stable, and
  with \<open>reverse=True\<close> elements of equal key keep the order they had; it is the stable
  ascending sort of the reversed list, reversed.
\<close>

definition sort_newest_first :: "alert list \<Rightarrow> alert list" where
  "sort_newest_first xs = rev (sort_key timestamp (rev xs))"

text \<open>
  \<open>NurseNotifierAgent.get_alert_history\<close>. With a patient name that is present and not
  empty the list that is sorted is a new one; otherwise \<open>filtered_alerts\<close> is
  \<open>self.alert_history\<close> itself and the sort is in place.
\<close>

definition get_alert_history ::
    "agent_state \<Rightarrow> history_request \<Rightarrow> history_response \<times> agent_state" where
  "get_alert_history s request =
     (let limit = get_or (hr_limit request) 50
      in case hr_patient_name request of
           Some (c # cs) \<Rightarrow>
             (let filtered_alerts =
                    sort_newest_first
                      (filter (\<lambda>a. pi_name (patient_info a) = c # cs) (alert_history s))
              in (HistorySuccess (slice_to limit filtered_alerts) (length filtered_alerts) limit,
                  s))
         | _ \<Rightarrow>
             (let filtered_alerts = sort_newest_first (alert_history s)
              in (HistorySuccess (slice_to limit filtered_alerts) (length filtered_alerts) limit,
                  s\<lparr>alert_history := filtered_alerts\<rparr>)))"


section \<open>Provider status\<close>

text \<open>\<open>NurseNotifierAgent.update_provider_status\<close>\<close>

definition update_provider_status ::
    "agent_state \<Rightarrow> status_request \<Rightarrow> status_response \<times> agent_state" where
  "update_provider_status s request =
     (case sr_provider_id request of
        None \<Rightarrow> (StatusNotFound ''Provider None not found'', s)
      | Some provider_id \<Rightarrow>
          (if provider_id \<in> set (map fst (healthcare_providers s))
           then (StatusUpdated provider_id (sr_on_call request),
                 s\<lparr>healthcare_providers :=
                     map (\<lambda>(k, p). if k = provider_id
                                    then (k, p\<lparr>prov_on_call := sr_on_call request\<rparr>)
                                    else (k, p))
                       (healthcare_providers s)\<rparr>)
           else (StatusNotFound (''Provider '' @ provider_id @ '' not found''), s)))"


section \<open>Escalation\<close>

text \<open>
  The loop of \<open>NurseNotifierAgent.escalate_alert\<close> over \<open>self.alert_history\<close>: \<open>before\<close>
  holds the alerts already passed, the list argument those still to visit. The first alert
  whose id is the requested one is changed in place, a new alert is sent for it, and the
  loop returns.
\<close>

fun escalate_loop ::
    "env \<Rightarrow> agent_state \<Rightarrow> escalate_request \<Rightarrow> alert list \<Rightarrow> alert list
       \<Rightarrow> escalate_response \<times> agent_state" where
  "escalate_loop e s request before [] =
     (EscalateNotFound (''Alert '' @ get_or (er_alert_id request) ''None'' @ '' not found''), s)"
| "escalate_loop e s request before (a # rest) =
     (if Some (alert_id a) = er_alert_id request
      then (let new_priority = get_or (er_new_priority request) ''URGENT'';
                old_priority = priority a;
                a' = a\<lparr>priority := new_priority, escalation_level := escalation_level a + 1\<rparr>;
                s' = s\<lparr>alert_history := before @ a' # rest\<rparr>;
                (escalation_result, s'') =
                  send_alert e s'
                    \<lparr>req_patient_message =
                       Some (''ESCALATED: '' @ pi_original_message (patient_info a')),
                     req_triage_assessment = Present (triage_assessment a'),
                     req_patient_context =
                       Present \<lparr>pc_name = Some (pi_name (patient_info a')),
                                pc_condition = Some (pi_condition (patient_info a'))\<rparr>,
                     req_priority = Some new_priority,
                     req_timestamp = Some (now_isoformat e)\<rparr>
            in (Escalated (alert_id a) old_priority new_priority (escalation_level a')
                  escalation_result, s''))
      else escalate_loop e s request (before @ [a]) rest)"

text \<open>\<open>NurseNotifierAgent.escalate_alert\<close>\<close>

definition escalate_alert ::
    "env \<Rightarrow> agent_state \<Rightarrow> escalate_request \<Rightarrow> escalate_response \<times> agent_state" where
  "escalate_alert e s request = escalate_loop e s request [] (alert_history s)"

text \<open>The alert an id denotes in a history: the first one that carries it.\<close>

definition find_alert :: "string \<Rightarrow> alert list \<Rightarrow> alert option" where
  "find_alert i history = find (\<lambda>a. alert_id a = i) history"


section \<open>The states the agent reaches\<close>

text \<open>
  The agent starts in \<open>initial_state\<close> and changes only through the four operations
  below; \<open>check_provider_availability\<close> and an unknown action of \<open>invoke\<close> read the
  agent and leave it as it is.
\<close>

inductive reachable :: "agent_state \<Rightarrow> bool" where
  reachable_init: "reachable initial_state"
| reachable_send: "reachable s \<Longrightarrow> reachable (snd (send_alert e s request))"
| reachable_history: "reachable s \<Longrightarrow> reachable (snd (get_alert_history s hrequest))"
| reachable_status: "reachable s \<Longrightarrow> reachable (snd (update_provider_status s srequest))"
| reachable_escalate: "reachable s \<Longrightarrow> reachable (snd (escalate_alert e s erequest))"


section \<open>Invariants and sample inputs\<close>

text \<open>A contact record that holds an address for each of the four channels.\<close>

definition has_all_addresses :: "contact_info \<Rightarrow> bool" where
  "has_all_addresses c =
     (dashboard_id c \<noteq> None \<and> phone c \<noteq> None \<and> pager c \<noteq> None \<and> email c \<noteq> None)"

text \<open>
  The shape \<open>_create_alert\<close> gives an alert id, and the invariant of the history that makes
  a new id fresh: every stored id carries a sequence number no greater than the length of
  the history.
\<close>

definition mk_alert_id :: "nat \<Rightarrow> string \<Rightarrow> string" where
  "mk_alert_id k stamp = ''ALERT_'' @ dec k @ ''_'' @ stamp"

definition numbered_ids :: "alert list \<Rightarrow> bool" where
  "numbered_ids history =
     list_all (\<lambda>a. \<exists>k stamp. k \<le> length history \<and> alert_id a = mk_alert_id k stamp) history"

text \<open>
  An assessment whose list of symptoms, when it has one, holds strings only: the
  assessments for which \<open>_format_alert_message\<close> does not raise. Every stored alert embeds
  such an assessment.
\<close>

fun is_str :: "item \<Rightarrow> bool" where
  "is_str (Str s) = True"
| "is_str (NotStr ty) = False"

definition strings_only :: "triage_assessment \<Rightarrow> bool" where
  "strings_only t =
     (case ta_symptoms_identified t of Present xs \<Rightarrow> list_all is_str xs | _ \<Rightarrow> True)"

definition stored_strings_only :: "alert list \<Rightarrow> bool" where
  "stored_strings_only history = list_all (\<lambda>a. strings_only (triage_assessment a)) history"

text \<open>The request \<open>test_system.py\<close> sends to the notifier, and its parts.\<close>

definition test_assessment :: triage_assessment where
  "test_assessment =
     \<lparr>ta_risk_level = Present ''CRITICAL'', ta_escalate = Some True,
      ta_symptoms_identified = Absent, ta_reasoning = None, ta_recommendations = None,
      ta_urgency_score = None, ta_keywords_detected = None\<rparr>"

definition test_context :: patient_context where
  "test_context = \<lparr>pc_name = Some ''Elena'', pc_condition = None\<rparr>"

definition test_request :: send_alert_request where
  "test_request =
     \<lparr>req_patient_message = Some ''I have a high fever'',
      req_triage_assessment = Present test_assessment,
      req_patient_context = Present test_context,
      req_priority = Some ''URGENT'',
      req_timestamp = None\<rparr>"

text \<open>
  The same request with an assessment that has no risk level, and with one whose risk
  level is \<open>null\<close>.
\<close>

definition no_risk_request :: send_alert_request where
  "no_risk_request =
     test_request\<lparr>req_triage_assessment := Present (test_assessment\<lparr>ta_risk_level := Absent\<rparr>)\<rparr>"

definition null_risk_request :: send_alert_request where
  "null_risk_request =
     test_request\<lparr>req_triage_assessment := Present (test_assessment\<lparr>ta_risk_level := Null\<rparr>)\<rparr>"

text \<open>
  The request \<open>TriageAgent._trigger_nurse_notification\<close> builds for the same message and
  assessment when \<open>assess_symptoms\<close> was called without a patient context: the context is
  \<open>None\<close>, the priority is the one of the risk level, the timestamp is the clock's.
\<close>

definition none_context_request :: send_alert_request where
  "none_context_request =
     \<lparr>req_patient_message = Some ''I have a high fever'',
      req_triage_assessment = Present test_assessment,
      req_patient_context = Null,
      req_priority = Some (map_risk_to_priority ''CRITICAL''),
      req_timestamp = Some ''2025-01-01T08:00:00''\<rparr>"

text \<open>
  A clock reading with the mock senders as the source has them (none raises), with senders
  that all raise, and with an e-mail sender that raises.
\<close>

definition mock_env :: env where
  "mock_env =
     \<lparr>now_isoformat = ''2025-01-01T08:00:00'', now_strftime = ''20250101_080000'',
      sender_raises = (\<lambda>channel a address. False)\<rparr>"

definition failing_env :: env where
  "failing_env =
     \<lparr>now_isoformat = ''2025-01-01T08:00:00'', now_strftime = ''20250101_080000'',
      sender_raises = (\<lambda>channel a address. True)\<rparr>"


text \<open>The alert \<open>send_alert\<close> creates for \<open>test_request\<close> in the initial state.\<close>

definition test_alert :: alert where
  "test_alert =
     \<lparr>alert_id = ''ALERT_1_20250101_080000'',
      timestamp = ''2025-01-01T08:00:00'',
      priority = ''URGENT'',
      risk_level = Some ''CRITICAL'',
      urgency_score = 5,
      patient_info = \<lparr>pi_name = ''Elena'', pi_condition = ''Unknown'',
                       pi_original_message = ''I have a high fever''\<rparr>,
      triage_assessment = test_assessment,
      alert_message =
        alert_template mock_env ''Elena'' ''I have a high fever'' ''See details''
          (Some ''CRITICAL''),
      status = ''sent'',
      response_required = True,
      escalation_level = 0,
      created_by = ''triage_agent''\<rparr>"

text \<open>
  The state after the request of the test, where the history holds that one alert, and a
  request to escalate it, with the default new priority.
\<close>

definition after_test_request :: agent_state where
  "after_test_request = snd (send_alert mock_env initial_state test_request)"

definition test_escalation :: escalate_request where
  "test_escalation = \<lparr>er_alert_id = Some ''ALERT_1_20250101_080000'', er_new_priority = None\<rparr>"

text \<open>
  The state after the same request sent once more with a later timestamp, and the alert
  that request creates.
\<close>

definition second_alert :: alert where
  "second_alert =
     test_alert\<lparr>alert_id := ''ALERT_2_20250101_080000'', timestamp := ''2025-01-02T09:30:00''\<rparr>"

definition after_second_request :: agent_state where
  "after_second_request =
     snd (send_alert mock_env after_test_request
            (test_request\<lparr>req_timestamp := Some ''2025-01-02T09:30:00''\<rparr>))"


section \<open>Creating an alert: when it raises and what it builds\<close>

lemma first_not_str_None: "(first_not_str i xs = None) = list_all is_str xs"
  by (induction i xs rule: first_not_str.induct) simp_all

lemma join_items_strings: "list_all is_str xs \<Longrightarrow> join_items sep xs = Inr (join sep (strings_of xs))"
  using first_not_str_None [of 0 xs] by (simp add: join_items_def)

lemma join_items_raises: "\<not> list_all is_str xs \<Longrightarrow> \<exists>ex. join_items sep xs = Inl ex"
  using first_not_str_None [of 0 xs] by (auto simp: join_items_def)

text \<open>The text of the symptoms of an assessment, as \<open>_create_alert\<close> passes them on.\<close>

lemma symptoms_text_strings_only:
  assumes "strings_only t"
  shows "symptoms_text (entry_get (ta_symptoms_identified t) []) =
           Inr (case ta_symptoms_identified t of
                  Present (x # xs) \<Rightarrow> join '', '' (strings_of (x # xs))
                | _ \<Rightarrow> ''See details'')"
proof (cases "ta_symptoms_identified t")
  case Absent
  then show ?thesis by (simp add: entry_get_def symptoms_text_def)
next
  case Null
  then show ?thesis by (simp add: entry_get_def symptoms_text_def)
next
  case (Present xs)
  show ?thesis
  proof (cases xs)
    case Nil
    with Present show ?thesis by (simp add: entry_get_def symptoms_text_def)
  next
    case (Cons y ys)
    with Present assms have "list_all is_str (y # ys)" by (simp add: strings_only_def)
    then have "join_items '', '' (y # ys) = Inr (join '', '' (strings_of (y # ys)))"
      by (rule join_items_strings)
    with Present Cons show ?thesis by (simp add: entry_get_def symptoms_text_def)
  qed
qed

lemma symptoms_text_raises:
  assumes "\<not> strings_only t"
  shows "\<exists>ex. symptoms_text (entry_get (ta_symptoms_identified t) []) = Inl ex"
proof -
  from assms obtain xs where p: "ta_symptoms_identified t = Present xs" and n: "\<not> list_all is_str xs"
    by (auto simp: strings_only_def split: entry.splits)
  from n obtain y ys where c: "xs = y # ys" by (cases xs) auto
  from n obtain ex where "join_items '', '' xs = Inl ex" using join_items_raises by blast
  with p c show ?thesis by (simp add: entry_get_def symptoms_text_def)
qed

text \<open>The alert \<open>_create_alert\<close> builds from an assessment whose symptoms are strings.\<close>

lemma create_alert_builds:
  assumes "strings_only t"
  shows "create_alert e h m (Some t) c p ts =
           Inr \<lparr>alert_id = ''ALERT_'' @ dec (length h + 1) @ ''_'' @ now_strftime e,
                timestamp = ts,
                priority = p,
                risk_level = entry_get (ta_risk_level t) ''MODERATE'',
                urgency_score = get_or (ta_urgency_score t) 5,
                patient_info = \<lparr>pi_name = get_or (pc_name c) ''Unknown Patient'',
                                 pi_condition = get_or (pc_condition c) ''Unknown'',
                                 pi_original_message = m\<rparr>,
                triage_assessment = t,
                alert_message =
                  alert_template e (get_or (pc_name c) ''Unknown Patient'') m
                    (case ta_symptoms_identified t of
                       Present (x # xs) \<Rightarrow> join '', '' (strings_of (x # xs))
                     | _ \<Rightarrow> ''See details'')
                    (entry_get (ta_risk_level t) ''MODERATE''),
                status = ''sent'',
                response_required = True,
                escalation_level = 0,
                created_by = ''triage_agent''\<rparr>"
  by (simp add: create_alert_def format_alert_message_def Let_def
        symptoms_text_strings_only [OF assms])

lemma create_alert_raises:
  "create_alert e h m None c p ts = Inl none_has_no_get"
  "\<not> strings_only t \<Longrightarrow> \<exists>ex. create_alert e h m (Some t) c p ts = Inl ex"
proof -
  show "create_alert e h m None c p ts = Inl none_has_no_get"
    by (simp add: create_alert_def Let_def)
  assume "\<not> strings_only t"
  then obtain ex where "symptoms_text (entry_get (ta_symptoms_identified t) []) = Inl ex"
    using symptoms_text_raises by blast
  then have "create_alert e h m (Some t) c p ts = Inl ex"
    by (simp add: create_alert_def format_alert_message_def Let_def)
  then show "\<exists>ex. create_alert e h m (Some t) c p ts = Inl ex" by blast
qed

lemma create_alert_Inr:
  assumes "create_alert e h m assessment c p ts = Inr a"
  shows "\<exists>t. assessment = Some t \<and> strings_only t"
proof (cases assessment)
  case None
  with assms show ?thesis by (simp add: create_alert_raises(1))
next
  case (Some t)
  with assms create_alert_raises(2) [of t e h m c p ts] show ?thesis by auto
qed

lemma create_alert_fields:
  assumes "create_alert e h m assessment c p ts = Inr a"
  shows "alert_id a = ''ALERT_'' @ dec (length h + 1) @ ''_'' @ now_strftime e"
    and "timestamp a = ts"
    and "priority a = p"
    and "assessment = Some (triage_assessment a)"
    and "strings_only (triage_assessment a)"
    and "risk_level a = entry_get (ta_risk_level (triage_assessment a)) ''MODERATE''"
    and "urgency_score a = get_or (ta_urgency_score (triage_assessment a)) 5"
    and "pi_name (patient_info a) = get_or (pc_name c) ''Unknown Patient''"
    and "pi_condition (patient_info a) = get_or (pc_condition c) ''Unknown''"
    and "pi_original_message (patient_info a) = m"
    and "status a = ''sent''"
    and "response_required a = True"
    and "escalation_level a = 0"
    and "created_by a = ''triage_agent''"
proof -
  from create_alert_Inr [OF assms] obtain t where t: "assessment = Some t" "strings_only t"
    by blast
  from assms [unfolded t(1) create_alert_builds [OF t(2)]] t
  show "alert_id a = ''ALERT_'' @ dec (length h + 1) @ ''_'' @ now_strftime e"
    and "timestamp a = ts"
    and "priority a = p"
    and "assessment = Some (triage_assessment a)"
    and "strings_only (triage_assessment a)"
    and "risk_level a = entry_get (ta_risk_level (triage_assessment a)) ''MODERATE''"
    and "urgency_score a = get_or (ta_urgency_score (triage_assessment a)) 5"
    and "pi_name (patient_info a) = get_or (pc_name c) ''Unknown Patient''"
    and "pi_condition (patient_info a) = get_or (pc_condition c) ''Unknown''"
    and "pi_original_message (patient_info a) = m"
    and "status a = ''sent''"
    and "response_required a = True"
    and "escalation_level a = 0"
    and "created_by a = ''triage_agent''"
    by auto
qed

lemma create_alert_length:
  "length h = length h' \<Longrightarrow> create_alert e h m t c p ts = create_alert e h' m t c p ts"
  by (simp add: create_alert_def)

lemma test_assessment_strings_only: "strings_only test_assessment"
  by (simp add: strings_only_def test_assessment_def)

lemma test_alert_fields:
  "priority test_alert = ''URGENT''" "risk_level test_alert = Some ''CRITICAL''"
  by (simp_all add: test_alert_def)

section \<open>Risk level and priority\<close>

text \<open>
  C5, as stated: every risk level other than CRITICAL and MODERATE is mapped to NORMAL.
  The source's dictionary has the default HIGH: an unrecognised risk level is mapped to
  HIGH, not to NORMAL.
\<close>

theorem map_risk_to_priority_unrecognized_is_high:
  "map_risk_to_priority ''UNKNOWN'' = ''HIGH'' \<and> map_risk_to_priority ''UNKNOWN'' \<noteq> ''NORMAL''"
  by (simp add: map_risk_to_priority_def dict_get_def)

text \<open>
  C5, amended: the mapping sends CRITICAL to URGENT, MODERATE to HIGH, LOW to NORMAL, and
  every other risk-level value to HIGH.
\<close>

theorem map_risk_to_priority_table:
  "map_risk_to_priority r =
     (if r = ''CRITICAL'' then ''URGENT''
      else if r = ''MODERATE'' then ''HIGH''
      else if r = ''LOW'' then ''NORMAL''
      else ''HIGH'')"
  by (simp add: map_risk_to_priority_def dict_get_def)

theorem map_risk_to_priority_table_witness:
  "map_risk_to_priority ''LOW'' = ''NORMAL'' \<and> map_risk_to_priority ''low'' = ''HIGH''"
  using map_risk_to_priority_table [of "''LOW''"] map_risk_to_priority_table [of "''low''"]
  by simp


section \<open>Recipient resolution\<close>

lemma is_available_iff:
  "is_available d i = (\<exists>p. map_of d i = Some p \<and> prov_on_call p = Some True)"
  by (simp add: is_available_def split: option.splits)

text \<open>
  C2: the candidates are the primary nurse and, when the risk level is CRITICAL or the
  priority is URGENT, the physician; they are filtered to those of the directory that are
  on call; when none is left the ids of the whole directory are returned; so the result is
  not empty when the directory is not.
\<close>

theorem recipients_fail_open:
  "determine_notification_recipients d a =
     (let candidates =
            ''nurse_david'' #
              (if risk_level a = Some ''CRITICAL'' \<or> priority a = ''URGENT'' then [''dr_smith'']
               else []);
          on_call = filter (\<lambda>i. \<exists>p. map_of d i = Some p \<and> prov_on_call p = Some True) candidates
      in if on_call = [] then map fst d else on_call)
   \<and> (d \<noteq> [] \<longrightarrow> determine_notification_recipients d a \<noteq> [])"
proof -
  have av: "is_available d = (\<lambda>i. \<exists>p. map_of d i = Some p \<and> prov_on_call p = Some True)"
    by (rule ext) (rule is_available_iff)
  show ?thesis
    unfolding determine_notification_recipients_def av Let_def by auto
qed

text \<open>
  In the initial directory the nurse is on call and the physician is not: the alert of the
  test is sent to the nurse. With the nurse's flag cleared nobody is on call and both
  providers are returned.
\<close>

theorem recipients_fail_open_witness:
  "initialize_healthcare_providers \<noteq> []
   \<and> determine_notification_recipients initialize_healthcare_providers test_alert \<noteq> []
   \<and> determine_notification_recipients initialize_healthcare_providers test_alert
       = [''nurse_david'']
   \<and> determine_notification_recipients
         [(''nurse_david'', nurse_david\<lparr>prov_on_call := Some False\<rparr>), (''dr_smith'', dr_smith)]
         test_alert
       = [''nurse_david'', ''dr_smith'']"
proof -
  have r: "risk_level test_alert = Some ''CRITICAL''"
    by (rule test_alert_fields)
  have n: "prov_on_call nurse_david = Some True" and s: "prov_on_call dr_smith = Some False"
    by (simp_all add: nurse_david_def dr_smith_def)
  have d: "initialize_healthcare_providers \<noteq> []"
    by (simp add: initialize_healthcare_providers_def)
  from recipients_fail_open [of initialize_healthcare_providers test_alert] d
  have 1: "determine_notification_recipients initialize_healthcare_providers test_alert \<noteq> []"
    by blast
  have 2: "determine_notification_recipients initialize_healthcare_providers test_alert
             = [''nurse_david'']"
    using recipients_fail_open [of initialize_healthcare_providers test_alert]
    by (simp add: r n s initialize_healthcare_providers_def)
  have 3: "determine_notification_recipients
             [(''nurse_david'', nurse_david\<lparr>prov_on_call := Some False\<rparr>), (''dr_smith'', dr_smith)]
             test_alert
           = [''nurse_david'', ''dr_smith'']"
    using recipients_fail_open
            [of "[(''nurse_david'', nurse_david\<lparr>prov_on_call := Some False\<rparr>),
                  (''dr_smith'', dr_smith)]" test_alert]
    by (simp add: r s)
  from d 1 2 3 show ?thesis by blast
qed


section \<open>The dispatcher\<close>

lemma and_then_None: "and_then (None, st) f = f st"
  by (simp add: and_then_def)

lemma and_then_Some: "and_then (Some ex, st) f = (Some ex, st)"
  by (simp add: and_then_def)

lemma attempt_missing:
  "attempt channel key None sender st = (Some ([CHR 0x27] @ key @ [CHR 0x27]), st)"
  by (simp add: attempt_def)

lemma attempt_present:
  "attempt channel key (Some addr) sender (r, log) =
     (None, (r\<lparr>nr_channels_used := nr_channels_used r @ [channel]\<rparr>,
             log @ [(channel, addr, sender addr)]))"
  by (simp add: attempt_def)

lemmas try_simps = and_then_None and_then_Some attempt_missing attempt_present

lemmas sender_defs = send_dashboard_notification_def send_sms_notification_def
  send_pager_notification_def send_email_notification_def

text \<open>The statements the \<open>try\<close> block runs, for each of the three kinds of priority.\<close>

lemma notify_urgent:
  assumes "priority a = ''URGENT''"
  shows "notify_channels e a c st =
     and_then
       (and_then
          (and_then
             (attempt ''dashboard'' ''dashboard_id'' (dashboard_id c)
                (send_dashboard_notification e a) st)
             (attempt ''sms'' ''phone'' (phone c) (send_sms_notification e a)))
          (attempt ''pager'' ''pager'' (pager c) (send_pager_notification e a)))
       (attempt ''email'' ''email'' (email c) (send_email_notification e a))"
  unfolding notify_channels_def using assms
  by (simp add: and_then_def split: prod.splits option.splits)

lemma notify_high:
  assumes "priority a = ''HIGH''"
  shows "notify_channels e a c st =
     and_then
       (and_then
          (attempt ''dashboard'' ''dashboard_id'' (dashboard_id c)
             (send_dashboard_notification e a) st)
          (attempt ''sms'' ''phone'' (phone c) (send_sms_notification e a)))
       (attempt ''email'' ''email'' (email c) (send_email_notification e a))"
  unfolding notify_channels_def using assms
  by (simp add: and_then_def split: prod.splits option.splits)

lemma notify_normal:
  assumes "priority a \<noteq> ''URGENT''" "priority a \<noteq> ''HIGH''"
  shows "notify_channels e a c st =
     and_then
       (attempt ''dashboard'' ''dashboard_id'' (dashboard_id c)
          (send_dashboard_notification e a) st)
       (attempt ''email'' ''email'' (email c) (send_email_notification e a))"
  unfolding notify_channels_def using assms
  by (simp add: and_then_def split: prod.splits option.splits)

lemma priority_cases:
  obtains (urgent) "priority a = ''URGENT''" | (high) "priority a = ''HIGH''"
  | (normal) "priority a \<noteq> ''URGENT''" "priority a \<noteq> ''HIGH''"
  by blast

text \<open>What the dispatcher returns, in terms of the first address that is missing.\<close>

lemma dispatch_result:
  "(let c = prov_contact p;
        r = fst (send_notification_to_provider e a p);
        log = snd (send_notification_to_provider e a p);
        r' = fst (send_notification_to_provider (e\<lparr>sender_raises := f\<rparr>) a p);
        log' = snd (send_notification_to_provider (e\<lparr>sender_raises := f\<rparr>) a p);
        missing =
          (if dashboard_id c = None then Some ''dashboard_id''
           else if (priority a = ''URGENT'' \<or> priority a = ''HIGH'') \<and> phone c = None
                then Some ''phone''
           else if priority a = ''URGENT'' \<and> pager c = None then Some ''pager''
           else if email c = None then Some ''email''
           else None)
    in map fst log = nr_channels_used r
     \<and> list_all (\<lambda>(channel, address, flag). flag = (\<not> sender_raises e channel a address)) log
     \<and> r' = r
     \<and> map (\<lambda>(channel, address, flag). (channel, address)) log'
         = map (\<lambda>(channel, address, flag). (channel, address)) log
     \<and> (nr_status r = ''error'') = (missing \<noteq> None)
     \<and> (nr_status r = ''success'') = (missing = None)
     \<and> nr_error r = map_option (\<lambda>k. [CHR 0x27] @ k @ [CHR 0x27]) missing)"
proof (cases a rule: priority_cases)
  case urgent
  show ?thesis
    unfolding Let_def send_notification_to_provider_def notify_urgent [OF urgent]
    by (cases "dashboard_id (prov_contact p)"; cases "phone (prov_contact p)";
        cases "pager (prov_contact p)"; cases "email (prov_contact p)")
       (simp_all add: try_simps urgent sender_defs)
next
  case high
  show ?thesis
    unfolding Let_def send_notification_to_provider_def notify_high [OF high]
    by (cases "dashboard_id (prov_contact p)"; cases "phone (prov_contact p)";
        cases "email (prov_contact p)")
       (simp_all add: try_simps high sender_defs)
next
  case normal
  show ?thesis
    unfolding Let_def send_notification_to_provider_def notify_normal [OF normal]
    by (cases "dashboard_id (prov_contact p)"; cases "email (prov_contact p)")
       (simp_all add: try_simps normal sender_defs)
qed

text \<open>With every address present the channels used are those of the priority.\<close>

lemma dispatch_complete:
  assumes "has_all_addresses (prov_contact p)"
  shows "nr_channels_used (fst (send_notification_to_provider e a p)) =
           (if priority a = ''URGENT'' then [''dashboard'', ''sms'', ''pager'', ''email'']
            else if priority a = ''HIGH'' then [''dashboard'', ''sms'', ''email'']
            else [''dashboard'', ''email''])"
    and "nr_status (fst (send_notification_to_provider e a p)) = ''success''"
    and "nr_error (fst (send_notification_to_provider e a p)) = None"
    and "length (snd (send_notification_to_provider e a p))
           = length (nr_channels_used (fst (send_notification_to_provider e a p)))"
proof -
  from assms obtain d ph pg em where c:
    "dashboard_id (prov_contact p) = Some d" "phone (prov_contact p) = Some ph"
    "pager (prov_contact p) = Some pg" "email (prov_contact p) = Some em"
    by (auto simp: has_all_addresses_def)
  have "nr_channels_used (fst (send_notification_to_provider e a p)) =
           (if priority a = ''URGENT'' then [''dashboard'', ''sms'', ''pager'', ''email'']
            else if priority a = ''HIGH'' then [''dashboard'', ''sms'', ''email'']
            else [''dashboard'', ''email''])
      \<and> nr_status (fst (send_notification_to_provider e a p)) = ''success''
      \<and> nr_error (fst (send_notification_to_provider e a p)) = None
      \<and> length (snd (send_notification_to_provider e a p))
           = length (nr_channels_used (fst (send_notification_to_provider e a p)))"
  proof (cases a rule: priority_cases)
    case urgent
    show ?thesis
      unfolding send_notification_to_provider_def notify_urgent [OF urgent] Let_def
      by (simp add: try_simps urgent c)
  next
    case high
    show ?thesis
      unfolding send_notification_to_provider_def notify_high [OF high] Let_def
      by (simp add: try_simps high c)
  next
    case normal
    show ?thesis
      unfolding send_notification_to_provider_def notify_normal [OF normal] Let_def
      by (simp add: try_simps normal c)
  qed
  then show
    "nr_channels_used (fst (send_notification_to_provider e a p)) =
           (if priority a = ''URGENT'' then [''dashboard'', ''sms'', ''pager'', ''email'']
            else if priority a = ''HIGH'' then [''dashboard'', ''sms'', ''email'']
            else [''dashboard'', ''email''])"
    "nr_status (fst (send_notification_to_provider e a p)) = ''success''"
    "nr_error (fst (send_notification_to_provider e a p)) = None"
    "length (snd (send_notification_to_provider e a p))
           = length (nr_channels_used (fst (send_notification_to_provider e a p)))"
    by blast+
qed


section \<open>The provider directory of a reachable state\<close>

lemma send_alert_providers:
  "healthcare_providers (snd (send_alert e s r)) = healthcare_providers s"
  by (simp add: send_alert_def Let_def split: option.splits sum.splits)

lemma get_alert_history_providers:
  "healthcare_providers (snd (get_alert_history s r)) = healthcare_providers s"
  by (simp add: get_alert_history_def Let_def split: option.splits list.splits)

lemma escalate_loop_providers:
  "healthcare_providers (snd (escalate_loop e s r before rest)) = healthcare_providers s"
proof (induction rest arbitrary: before)
  case Nil
  show ?case by simp
next
  case (Cons a rest)
  show ?case
  proof (cases "Some (alert_id a) = er_alert_id r")
    case True
    then show ?thesis
      by (simp add: Let_def split_beta send_alert_providers)
  next
    case False
    then show ?thesis using Cons.IH by simp
  qed
qed

lemma escalate_alert_providers:
  "healthcare_providers (snd (escalate_alert e s r)) = healthcare_providers s"
  by (simp add: escalate_alert_def escalate_loop_providers)

lemma update_provider_status_contacts:
  "map (\<lambda>(k, p). (k, prov_contact p)) (healthcare_providers (snd (update_provider_status s r)))
     = map (\<lambda>(k, p). (k, prov_contact p)) (healthcare_providers s)"
proof -
  have "map (\<lambda>(k, p). (k, prov_contact p))
          (map (\<lambda>(k, p). if k = i then (k, p\<lparr>prov_on_call := v\<rparr>) else (k, p)) d)
        = map (\<lambda>(k, p). (k, prov_contact p)) d" for i v and d :: "(string \<times> provider) list"
    by (induction d) (simp_all add: split_beta)
  then show ?thesis
    by (simp add: update_provider_status_def split: option.splits)
qed

lemma reachable_contacts:
  "reachable s \<Longrightarrow>
     map (\<lambda>(k, p). (k, prov_contact p)) (healthcare_providers s)
       = [(''nurse_david'', prov_contact nurse_david), (''dr_smith'', prov_contact dr_smith)]"
proof (induction rule: reachable.induct)
  case reachable_init
  show ?case by (simp add: initial_state_def initialize_healthcare_providers_def)
next
  case (reachable_send s e request)
  then show ?case by (simp add: send_alert_providers)
next
  case (reachable_history s hrequest)
  then show ?case by (simp add: get_alert_history_providers)
next
  case (reachable_status s srequest)
  then show ?case by (simp add: update_provider_status_contacts)
next
  case (reachable_escalate s e erequest)
  then show ?case by (simp add: escalate_alert_providers)
qed

lemma nurse_david_addresses: "has_all_addresses (prov_contact nurse_david)"
  by (simp add: has_all_addresses_def nurse_david_def)

lemma dr_smith_addresses: "has_all_addresses (prov_contact dr_smith)"
  by (simp add: has_all_addresses_def dr_smith_def)

lemma reachable_has_all_addresses:
  assumes "reachable s" and "map_of (healthcare_providers s) pid = Some p"
  shows "has_all_addresses (prov_contact p)"
proof -
  from assms(2) have "(pid, p) \<in> set (healthcare_providers s)" by (rule map_of_SomeD)
  then have "(\<lambda>(k, p). (k, prov_contact p)) (pid, p)
               \<in> set (map (\<lambda>(k, p). (k, prov_contact p)) (healthcare_providers s))"
    unfolding set_map by (rule imageI)
  then have "(pid, prov_contact p)
               \<in> set [(''nurse_david'', prov_contact nurse_david), (''dr_smith'', prov_contact dr_smith)]"
    unfolding reachable_contacts [OF assms(1)] by simp
  then have "prov_contact p = prov_contact nurse_david \<or> prov_contact p = prov_contact dr_smith"
    by auto
  then show ?thesis
    using nurse_david_addresses dr_smith_addresses by auto
qed


section \<open>Dispatch and the outcome of the senders\<close>






section \<open>Channels by priority\<close>

lemma normal_tier_in_high_tier:
  "set [''dashboard'', ''email''] \<subset> set [''dashboard'', ''sms'', ''email'']"
proof -
  have "''sms'' \<notin> set [''dashboard'', ''email'']" by simp
  moreover have "''sms'' \<in> set [''dashboard'', ''sms'', ''email'']" by simp
  moreover have "set [''dashboard'', ''email''] \<subseteq> set [''dashboard'', ''sms'', ''email'']"
    by simp
  ultimately show ?thesis by (rule_tac psubsetI) (assumption, metis)
qed

lemma high_tier_in_urgent_tier:
  "set [''dashboard'', ''sms'', ''email''] \<subset> set [''dashboard'', ''sms'', ''pager'', ''email'']"
proof -
  have "''pager'' \<notin> set [''dashboard'', ''sms'', ''email'']" by simp
  moreover have "''pager'' \<in> set [''dashboard'', ''sms'', ''pager'', ''email'']" by simp
  moreover have "set [''dashboard'', ''sms'', ''email'']
                   \<subseteq> set [''dashboard'', ''sms'', ''pager'', ''email'']"
    by simp
  ultimately show ?thesis by (rule_tac psubsetI) (assumption, metis)
qed

text \<open>
  C3: for every alert and every provider that has its four addresses, as every provider
  of the directory of a reachable state has, the channels the dispatcher attempts are
  those of the priority: dashboard, SMS, pager and e-mail for URGENT; dashboard, SMS and
  e-mail for HIGH; dashboard and e-mail for NORMAL, and for any other priority. The
  channels of NORMAL are among those of HIGH, which are among those of URGENT.
\<close>

theorem dispatch_channels_follow_priority:
  assumes "has_all_addresses (prov_contact p)
           \<or> (reachable s \<and> map_of (healthcare_providers s) pid = Some p)"
  shows "nr_channels_used (fst (send_notification_to_provider e a p)) =
           (if priority a = ''URGENT'' then [''dashboard'', ''sms'', ''pager'', ''email'']
            else if priority a = ''HIGH'' then [''dashboard'', ''sms'', ''email'']
            else [''dashboard'', ''email''])
       \<and> map fst (snd (send_notification_to_provider e a p))
           = nr_channels_used (fst (send_notification_to_provider e a p))
       \<and> (priority n = ''NORMAL'' \<and> priority h = ''HIGH'' \<and> priority u = ''URGENT'' \<longrightarrow>
            set (nr_channels_used (fst (send_notification_to_provider e n p)))
              \<subset> set (nr_channels_used (fst (send_notification_to_provider e h p)))
          \<and> set (nr_channels_used (fst (send_notification_to_provider e h p)))
              \<subset> set (nr_channels_used (fst (send_notification_to_provider e u p))))"
proof (intro conjI impI)
  from assms have c: "has_all_addresses (prov_contact p)"
    using reachable_has_all_addresses [of s pid p] by fast
  note tier = dispatch_complete(1) [OF c]
  show "nr_channels_used (fst (send_notification_to_provider e a p)) =
           (if priority a = ''URGENT'' then [''dashboard'', ''sms'', ''pager'', ''email'']
            else if priority a = ''HIGH'' then [''dashboard'', ''sms'', ''email'']
            else [''dashboard'', ''email''])"
    by (rule tier)
  show "map fst (snd (send_notification_to_provider e a p))
           = nr_channels_used (fst (send_notification_to_provider e a p))"
    by (rule conjunct1 [OF dispatch_result [of p e a "sender_raises e", unfolded Let_def]])
  assume pr: "priority n = ''NORMAL'' \<and> priority h = ''HIGH'' \<and> priority u = ''URGENT''"
  have n: "nr_channels_used (fst (send_notification_to_provider e n p)) = [''dashboard'', ''email'']"
    using pr by (simp add: tier)
  have h: "nr_channels_used (fst (send_notification_to_provider e h p))
             = [''dashboard'', ''sms'', ''email'']"
    using pr by (simp add: tier)
  have u: "nr_channels_used (fst (send_notification_to_provider e u p))
             = [''dashboard'', ''sms'', ''pager'', ''email'']"
    using pr by (simp add: tier)
  show "set (nr_channels_used (fst (send_notification_to_provider e n p)))
          \<subset> set (nr_channels_used (fst (send_notification_to_provider e h p)))"
    unfolding n h by (rule normal_tier_in_high_tier)
  show "set (nr_channels_used (fst (send_notification_to_provider e h p)))
          \<subset> set (nr_channels_used (fst (send_notification_to_provider e u p)))"
    unfolding h u by (rule high_tier_in_urgent_tier)
qed

theorem dispatch_channels_follow_priority_witness:
  "(has_all_addresses (prov_contact dr_smith)
    \<or> (reachable initial_state
        \<and> map_of (healthcare_providers initial_state) ''dr_smith'' = Some dr_smith))
   \<and> nr_channels_used (fst (send_notification_to_provider mock_env test_alert dr_smith))
       = [''dashboard'', ''sms'', ''pager'', ''email'']
   \<and> nr_channels_used
        (fst (send_notification_to_provider mock_env (test_alert\<lparr>priority := ''HIGH''\<rparr>) dr_smith))
       = [''dashboard'', ''sms'', ''email'']
   \<and> nr_channels_used
        (fst (send_notification_to_provider mock_env (test_alert\<lparr>priority := ''NORMAL''\<rparr>) dr_smith))
       = [''dashboard'', ''email'']"
proof -
  have "map_of (healthcare_providers initial_state) ''dr_smith'' = Some dr_smith"
    by (simp add: initial_state_def initialize_healthcare_providers_def)
  with reachable_init
  have h: "has_all_addresses (prov_contact dr_smith)
    \<or> (reachable initial_state
        \<and> map_of (healthcare_providers initial_state) ''dr_smith'' = Some dr_smith)"
    by simp
  have 1: "nr_channels_used (fst (send_notification_to_provider mock_env test_alert dr_smith))
       = [''dashboard'', ''sms'', ''pager'', ''email'']"
    using conjunct1 [OF dispatch_channels_follow_priority [OF h, of mock_env test_alert]]
    by (simp add: test_alert_fields)
  have 2: "nr_channels_used
        (fst (send_notification_to_provider mock_env (test_alert\<lparr>priority := ''HIGH''\<rparr>) dr_smith))
       = [''dashboard'', ''sms'', ''email'']"
    using conjunct1 [OF dispatch_channels_follow_priority
                          [OF h, of mock_env "test_alert\<lparr>priority := ''HIGH''\<rparr>"]]
    by simp
  have 3: "nr_channels_used
        (fst (send_notification_to_provider mock_env (test_alert\<lparr>priority := ''NORMAL''\<rparr>) dr_smith))
       = [''dashboard'', ''email'']"
    using conjunct1 [OF dispatch_channels_follow_priority
                          [OF h, of mock_env "test_alert\<lparr>priority := ''NORMAL''\<rparr>"]]
    by simp
  show ?thesis by (intro conjI) (rule h, rule 1, rule 2, rule 3)
qed


section \<open>Alert creation and the risk level\<close>

text \<open>The three ways \<open>send_alert\<close> ends.\<close>

lemma send_alert_none_context:
  assumes "entry_get (req_patient_context rq) empty_context = None"
  shows "send_alert e s rq = (SendAlertError ''Failed to send alert'' none_has_no_get, s)"
  using assms by (simp add: send_alert_def Let_def)

lemma send_alert_raises:
  assumes "entry_get (req_patient_context rq) empty_context = Some c"
    and "create_alert e (alert_history s) (get_or (req_patient_message rq) [])
           (entry_get (req_triage_assessment rq) empty_assessment) c
           (get_or (req_priority rq) ''HIGH'') (get_or (req_timestamp rq) (now_isoformat e))
         = Inl ex"
  shows "send_alert e s rq = (SendAlertError ''Failed to send alert'' ex, s)"
  using assms by (simp add: send_alert_def Let_def)

lemma send_alert_sent:
  assumes "entry_get (req_patient_context rq) empty_context = Some c"
    and "create_alert e (alert_history s) (get_or (req_patient_message rq) [])
           (entry_get (req_triage_assessment rq) empty_assessment) c
           (get_or (req_priority rq) ''HIGH'') (get_or (req_timestamp rq) (now_isoformat e))
         = Inr a"
  shows "send_alert_status (fst (send_alert e s rq)) = ''alert_sent''"
    and "snd (send_alert e s rq) = s\<lparr>alert_history := alert_history s @ [a]\<rparr>"
  using assms by (simp_all add: send_alert_def Let_def)

lemma send_alert_history_cases:
  "alert_history (snd (send_alert e s rq)) = alert_history s
   \<or> (\<exists>a m t c p ts. create_alert e (alert_history s) m t c p ts = Inr a
         \<and> alert_history (snd (send_alert e s rq)) = alert_history s @ [a])"
proof (cases "entry_get (req_patient_context rq) empty_context")
  case None
  then show ?thesis by (simp add: send_alert_none_context)
next
  case (Some c)
  show ?thesis
  proof (cases "create_alert e (alert_history s) (get_or (req_patient_message rq) [])
           (entry_get (req_triage_assessment rq) empty_assessment) c
           (get_or (req_priority rq) ''HIGH'') (get_or (req_timestamp rq) (now_isoformat e))")
    case (Inl ex)
    with Some show ?thesis by (simp add: send_alert_raises)
  next
    case (Inr a)
    from send_alert_sent(2) [OF Some Inr]
    have "alert_history (snd (send_alert e s rq)) = alert_history s @ [a]" by simp
    with Inr show ?thesis by blast
  qed
qed

text \<open>The alerts of the sample requests.\<close>

lemma dec_1: "dec (Suc 0) = ''1''"
  by (subst dec.simps) (simp add: digit_char_def)

lemma dec_2: "dec (Suc (Suc 0)) = ''2''"
  by (subst dec.simps) (simp add: digit_char_def)

lemma create_test_alert:
  "create_alert mock_env [] ''I have a high fever'' (Some test_assessment) test_context ''URGENT''
     ''2025-01-01T08:00:00'' = Inr test_alert"
  unfolding create_alert_builds [OF test_assessment_strings_only]
  by (simp add: test_alert_def test_assessment_def test_context_def entry_get_def get_or_def
        mock_env_def dec_1)

lemma after_test_request_history: "alert_history after_test_request = [test_alert]"
proof -
  have c: "entry_get (req_patient_context test_request) empty_context = Some test_context"
    by (simp add: test_request_def entry_get_def)
  have "create_alert mock_env (alert_history initial_state)
          (get_or (req_patient_message test_request) [])
          (entry_get (req_triage_assessment test_request) empty_assessment) test_context
          (get_or (req_priority test_request) ''HIGH'')
          (get_or (req_timestamp test_request) (now_isoformat mock_env)) = Inr test_alert"
    using create_test_alert
    by (simp add: test_request_def entry_get_def get_or_def initial_state_def mock_env_def)
  from send_alert_sent(2) [OF c this] show ?thesis
    by (simp add: after_test_request_def initial_state_def)
qed

text \<open>
  C4, as stated: an assessment without a risk level is rejected with a validation error and
  no alert is created, and on a well-formed assessment alert creation never fails. The
  source reads the risk level with the default MODERATE: for the request of the test
  without its risk level, \<open>send_alert\<close> answers \<open>alert_sent\<close>, not \<open>error\<close>, and the
  history, empty before, holds one alert of risk level MODERATE; with a risk level that is
  \<open>null\<close> it holds one alert of risk level \<open>None\<close>. And for the request the triage agent
  builds without a patient context, whose assessment is the well-formed one of the test,
  \<open>send_alert\<close> answers \<open>error\<close> and stores nothing.
\<close>

theorem missing_risk_level_creates_moderate_alert:
  "send_alert_status (fst (send_alert mock_env initial_state no_risk_request)) = ''alert_sent''
   \<and> send_alert_status (fst (send_alert mock_env initial_state no_risk_request)) \<noteq> ''error''
   \<and> alert_history initial_state = []
   \<and> map risk_level (alert_history (snd (send_alert mock_env initial_state no_risk_request)))
       = [Some ''MODERATE'']
   \<and> map risk_level (alert_history (snd (send_alert mock_env initial_state null_risk_request)))
       = [None]
   \<and> fst (send_alert mock_env initial_state none_context_request)
       = SendAlertError ''Failed to send alert'' none_has_no_get
   \<and> send_alert_status (fst (send_alert mock_env initial_state none_context_request)) = ''error''
   \<and> alert_history (snd (send_alert mock_env initial_state none_context_request)) = []"
proof -
  have s1: "strings_only (test_assessment\<lparr>ta_risk_level := Absent\<rparr>)"
    and s2: "strings_only (test_assessment\<lparr>ta_risk_level := Null\<rparr>)"
    by (simp_all add: strings_only_def test_assessment_def)
  have c1: "entry_get (req_patient_context no_risk_request) empty_context = Some test_context"
    and c2: "entry_get (req_patient_context null_risk_request) empty_context = Some test_context"
    by (simp_all add: no_risk_request_def null_risk_request_def test_request_def entry_get_def)
  have a1: "entry_get (req_triage_assessment no_risk_request) empty_assessment
              = Some (test_assessment\<lparr>ta_risk_level := Absent\<rparr>)"
    and a2: "entry_get (req_triage_assessment null_risk_request) empty_assessment
              = Some (test_assessment\<lparr>ta_risk_level := Null\<rparr>)"
    by (simp_all add: no_risk_request_def null_risk_request_def test_request_def entry_get_def)
  note b1 = create_alert_builds [OF s1, of mock_env "alert_history initial_state"
      "get_or (req_patient_message no_risk_request) []" test_context
      "get_or (req_priority no_risk_request) ''HIGH''"
      "get_or (req_timestamp no_risk_request) (now_isoformat mock_env)", folded a1]
  note b2 = create_alert_builds [OF s2, of mock_env "alert_history initial_state"
      "get_or (req_patient_message null_risk_request) []" test_context
      "get_or (req_priority null_risk_request) ''HIGH''"
      "get_or (req_timestamp null_risk_request) (now_isoformat mock_env)", folded a2]
  have 1: "send_alert_status (fst (send_alert mock_env initial_state no_risk_request))
             = ''alert_sent''"
    by (rule send_alert_sent(1) [OF c1 b1])
  have 2: "map risk_level (alert_history (snd (send_alert mock_env initial_state no_risk_request)))
             = [Some ''MODERATE'']"
    unfolding send_alert_sent(2) [OF c1 b1]
    by (simp add: initial_state_def entry_get_def)
  have 3: "map risk_level (alert_history (snd (send_alert mock_env initial_state null_risk_request)))
             = [None]"
    unfolding send_alert_sent(2) [OF c2 b2]
    by (simp add: initial_state_def entry_get_def)
  have n: "entry_get (req_patient_context none_context_request) empty_context = None"
    by (simp add: none_context_request_def entry_get_def)
  note 4 = send_alert_none_context [OF n, of mock_env initial_state]
  have 0: "send_alert_status (fst (send_alert mock_env initial_state no_risk_request)) \<noteq> ''error''"
    unfolding 1 by simp
  have 5: "alert_history initial_state = []"
    by (simp add: initial_state_def)
  have 6: "fst (send_alert mock_env initial_state none_context_request)
             = SendAlertError ''Failed to send alert'' none_has_no_get"
    unfolding 4 by simp
  have 7: "send_alert_status (fst (send_alert mock_env initial_state none_context_request))
             = ''error''"
    unfolding 4 by simp
  have 8: "alert_history (snd (send_alert mock_env initial_state none_context_request)) = []"
    unfolding 4 by (simp add: initial_state_def)
  show ?thesis
    by (intro conjI) (rule 1, rule 0, rule 5, rule 2, rule 3, rule 6, rule 7, rule 8)
qed

text \<open>
  C4, amended: alert creation never reports a validation error, and it never rejects an
  assessment for its risk level: an assessment without a risk level gives an alert of risk
  level MODERATE, one whose risk level is \<open>null\<close> gives an alert of risk level \<open>None\<close>.
  On the requests described above (the patient context and the assessment each a
  dictionary or \<open>None\<close>, the symptoms a list of any items or \<open>null\<close>, the other
  values of the types the source documents) \<open>send_alert\<close> fails, answering with status
  \<open>error\<close> and the message "Failed to send alert" and leaving the agent as it was, exactly
  when the patient context is \<open>None\<close>, or the assessment is \<open>None\<close>, or the list of
  symptoms of the assessment holds an item that is not a string. On every other request it
  answers \<open>alert_sent\<close> and appends to the history the alert it created, which embeds
  the assessment as it is.
\<close>

theorem risk_level_never_rejected:
  "(entry_get (req_patient_context rq) empty_context = None
      \<longrightarrow> send_alert e s rq = (SendAlertError ''Failed to send alert'' none_has_no_get, s))
   \<and> (entry_get (req_patient_context rq) empty_context = Some c
        \<and> entry_get (req_triage_assessment rq) empty_assessment = None
      \<longrightarrow> send_alert e s rq = (SendAlertError ''Failed to send alert'' none_has_no_get, s))
   \<and> (entry_get (req_patient_context rq) empty_context = Some c
        \<and> entry_get (req_triage_assessment rq) empty_assessment = Some t
        \<and> \<not> strings_only t
      \<longrightarrow> send_alert_status (fst (send_alert e s rq)) = ''error''
          \<and> sa_message (fst (send_alert e s rq)) = ''Failed to send alert''
          \<and> snd (send_alert e s rq) = s)
   \<and> (entry_get (req_patient_context rq) empty_context = Some c
        \<and> entry_get (req_triage_assessment rq) empty_assessment = Some t
        \<and> strings_only t
      \<longrightarrow> send_alert_status (fst (send_alert e s rq)) = ''alert_sent''
          \<and> (\<exists>a. create_alert e (alert_history s) (get_or (req_patient_message rq) [])
                     (Some t) c (get_or (req_priority rq) ''HIGH'')
                     (get_or (req_timestamp rq) (now_isoformat e)) = Inr a
                 \<and> snd (send_alert e s rq) = s\<lparr>alert_history := alert_history s @ [a]\<rparr>
                 \<and> triage_assessment a = t
                 \<and> risk_level a =
                     (case ta_risk_level t of
                        Absent \<Rightarrow> Some ''MODERATE''
                      | Null \<Rightarrow> None
                      | Present r \<Rightarrow> Some r)))"
proof (intro conjI impI)
  assume "entry_get (req_patient_context rq) empty_context = None"
  then show "send_alert e s rq = (SendAlertError ''Failed to send alert'' none_has_no_get, s)"
    by (rule send_alert_none_context)
next
  assume "entry_get (req_patient_context rq) empty_context = Some c
        \<and> entry_get (req_triage_assessment rq) empty_assessment = None"
  then show "send_alert e s rq = (SendAlertError ''Failed to send alert'' none_has_no_get, s)"
    by (intro send_alert_raises [of rq c]) (simp_all add: create_alert_raises(1))
next
  assume h: "entry_get (req_patient_context rq) empty_context = Some c
        \<and> entry_get (req_triage_assessment rq) empty_assessment = Some t
        \<and> \<not> strings_only t"
  then have c: "entry_get (req_patient_context rq) empty_context = Some c"
    and t: "entry_get (req_triage_assessment rq) empty_assessment = Some t"
    and ns: "\<not> strings_only t"
    by simp_all
  from create_alert_raises(2) [OF ns, of e "alert_history s" "get_or (req_patient_message rq) []"
         c "get_or (req_priority rq) ''HIGH''" "get_or (req_timestamp rq) (now_isoformat e)"]
  obtain ex where
    "create_alert e (alert_history s) (get_or (req_patient_message rq) []) (Some t) c
       (get_or (req_priority rq) ''HIGH'') (get_or (req_timestamp rq) (now_isoformat e))
     = Inl ex"
    by blast
  then have "create_alert e (alert_history s) (get_or (req_patient_message rq) [])
       (entry_get (req_triage_assessment rq) empty_assessment) c
       (get_or (req_priority rq) ''HIGH'') (get_or (req_timestamp rq) (now_isoformat e))
     = Inl ex"
    unfolding t .
  with c have r: "send_alert e s rq = (SendAlertError ''Failed to send alert'' ex, s)"
    by (rule send_alert_raises)
  show "send_alert_status (fst (send_alert e s rq)) = ''error''"
    and "sa_message (fst (send_alert e s rq)) = ''Failed to send alert''"
    and "snd (send_alert e s rq) = s"
    by (simp_all add: r)
next
  assume h: "entry_get (req_patient_context rq) empty_context = Some c
        \<and> entry_get (req_triage_assessment rq) empty_assessment = Some t
        \<and> strings_only t"
  then have c: "entry_get (req_patient_context rq) empty_context = Some c"
    and t: "entry_get (req_triage_assessment rq) empty_assessment = Some t"
    and st: "strings_only t"
    by simp_all
  obtain a where a:
    "create_alert e (alert_history s) (get_or (req_patient_message rq) []) (Some t) c
       (get_or (req_priority rq) ''HIGH'') (get_or (req_timestamp rq) (now_isoformat e)) = Inr a"
    using create_alert_builds [OF st] by blast
  note sent = send_alert_sent [OF c a [folded t]]
  show "send_alert_status (fst (send_alert e s rq)) = ''alert_sent''"
    by (rule sent(1))
  have f: "triage_assessment a = t"
    using create_alert_fields(4) [OF a] by simp
  have "risk_level a = entry_get (ta_risk_level t) ''MODERATE''"
    using create_alert_fields(6) [OF a] f by simp
  then have r: "risk_level a =
                  (case ta_risk_level t of
                     Absent \<Rightarrow> Some ''MODERATE'' | Null \<Rightarrow> None | Present r \<Rightarrow> Some r)"
    by (simp add: entry_get_def)
  from a sent(2) f r
  show "\<exists>a. create_alert e (alert_history s) (get_or (req_patient_message rq) [])
                     (Some t) c (get_or (req_priority rq) ''HIGH'')
                     (get_or (req_timestamp rq) (now_isoformat e)) = Inr a
                 \<and> snd (send_alert e s rq) = s\<lparr>alert_history := alert_history s @ [a]\<rparr>
                 \<and> triage_assessment a = t
                 \<and> risk_level a =
                     (case ta_risk_level t of
                        Absent \<Rightarrow> Some ''MODERATE''
                      | Null \<Rightarrow> None
                      | Present r \<Rightarrow> Some r)"
    by blast
qed

theorem risk_level_never_rejected_witness:
  "entry_get (req_patient_context test_request) empty_context = Some test_context
   \<and> entry_get (req_triage_assessment test_request) empty_assessment = Some test_assessment
   \<and> strings_only test_assessment
   \<and> send_alert_status (fst (send_alert mock_env initial_state test_request)) = ''alert_sent''
   \<and> entry_get (req_patient_context none_context_request) empty_context = None
   \<and> send_alert mock_env initial_state none_context_request
       = (SendAlertError ''Failed to send alert'' none_has_no_get, initial_state)
   \<and> entry_get (req_triage_assessment
                   (test_request\<lparr>req_triage_assessment :=
                      Present (test_assessment\<lparr>ta_symptoms_identified :=
                                 Present [Str ''fever'', NotStr ''int'']\<rparr>)\<rparr>))
         empty_assessment
       = Some (test_assessment\<lparr>ta_symptoms_identified := Present [Str ''fever'', NotStr ''int'']\<rparr>)
   \<and> \<not> strings_only
          (test_assessment\<lparr>ta_symptoms_identified := Present [Str ''fever'', NotStr ''int'']\<rparr>)
   \<and> send_alert_status
        (fst (send_alert mock_env initial_state
                (test_request\<lparr>req_triage_assessment :=
                   Present (test_assessment\<lparr>ta_symptoms_identified :=
                              Present [Str ''fever'', NotStr ''int'']\<rparr>)\<rparr>)))
       = ''error''"
proof -
  let ?bad = "test_assessment\<lparr>ta_symptoms_identified := Present [Str ''fever'', NotStr ''int'']\<rparr>"
  let ?rq = "test_request\<lparr>req_triage_assessment := Present ?bad\<rparr>"
  have c: "entry_get (req_patient_context test_request) empty_context = Some test_context"
    by (simp add: test_request_def entry_get_def)
  have t: "entry_get (req_triage_assessment test_request) empty_assessment = Some test_assessment"
    by (simp add: test_request_def entry_get_def)
  have n: "entry_get (req_patient_context none_context_request) empty_context = None"
    by (simp add: none_context_request_def entry_get_def)
  have c': "entry_get (req_patient_context ?rq) empty_context = Some test_context"
    by (simp add: test_request_def entry_get_def)
  have t': "entry_get (req_triage_assessment ?rq) empty_assessment = Some ?bad"
    by (simp add: entry_get_def)
  have b: "\<not> strings_only ?bad"
    by (simp add: strings_only_def)
  note thm1 = risk_level_never_rejected [of test_request mock_env initial_state test_context
                test_assessment]
  note thm2 = risk_level_never_rejected [of none_context_request mock_env initial_state
                test_context test_assessment]
  note thm3 = risk_level_never_rejected [of ?rq mock_env initial_state test_context ?bad]
  have 1: "send_alert_status (fst (send_alert mock_env initial_state test_request)) = ''alert_sent''"
    using thm1 c t test_assessment_strings_only by blast
  have 2: "send_alert mock_env initial_state none_context_request
             = (SendAlertError ''Failed to send alert'' none_has_no_get, initial_state)"
    using thm2 n by blast
  have 3: "send_alert_status (fst (send_alert mock_env initial_state ?rq)) = ''error''"
    using thm3 c' t' b by blast
  show ?thesis
    by (intro conjI)
       (rule c, rule t, rule test_assessment_strings_only, rule 1, rule n, rule 2, rule t',
        rule b, rule 3)
qed


section \<open>The rendered message\<close>

lemma lstrip_nl: "lstrip (nl @ s) = lstrip s"
  by (simp add: lstrip_def nl_def is_space_def)

lemma lstrip_nonspace: "\<not> is_space c \<Longrightarrow> lstrip (c # s) = c # s"
  by (simp add: lstrip_def)

lemma rstrip_append:
  assumes "c \<in> set t" and "\<not> is_space c"
  shows "rstrip (s @ t) = s @ rstrip t"
proof -
  from assms(1) have "c \<in> set (rev t)" by simp
  then have "dropWhile is_space (rev t @ rev s) = dropWhile is_space (rev t) @ rev s"
    using assms(2) by (rule dropWhile_append1)
  then show ?thesis by (simp add: rstrip_def)
qed

lemma urgency_indicator_cases:
  "urgency_indicator r = glyph_siren @ '' URGENT''
   \<or> urgency_indicator r = glyph_warning @ '' HIGH PRIORITY''
   \<or> urgency_indicator r = glyph_info @ '' ROUTINE''
   \<or> urgency_indicator r = glyph_warning @ '' ATTENTION''"
  by (simp add: urgency_indicator_def dict_get_def split: option.splits)

lemma urgency_indicator_head:
  "\<exists>c u. urgency_indicator r = c # u \<and> \<not> is_space c"
  using urgency_indicator_cases [of r]
  by (auto simp: glyph_siren_def glyph_warning_def glyph_info_def is_space_def)

lemma strip_template:
  assumes "x \<in> set t" and "\<not> is_space x"
  shows "strip (nl @ urgency_indicator r @ s @ t) = urgency_indicator r @ s @ rstrip t"
proof -
  obtain c u where cu: "urgency_indicator r = c # u" "\<not> is_space c"
    using urgency_indicator_head by blast
  have "lstrip (nl @ urgency_indicator r @ s @ t) = urgency_indicator r @ s @ t"
    by (simp add: lstrip_nl cu lstrip_nonspace)
  moreover have "rstrip ((urgency_indicator r @ s) @ t) = (urgency_indicator r @ s) @ rstrip t"
    using assms by (rule rstrip_append)
  ultimately show ?thesis by (simp add: strip_def)
qed

text \<open>The template after its \<open>strip()\<close>: only the newline in front and what follows the
  clock reading at the end are removed.\<close>

lemma alert_template_layout:
  "alert_template e patient_name m text r =
     (urgency_indicator r @ '': Patient Alert - '' @ patient_name @ nl @ nl @
      ''SYMPTOMS: '' @ text @ nl @
      ''PATIENT REPORT: '' @ dq) @
     (take 150 m @ (if 150 < length m then ''...'' else [])) @
     (dq @ nl @ nl @
      ''RISK LEVEL: '' @ py_str r @ nl @
      ''IMMEDIATE ACTION: '' @
        (if r = Some ''CRITICAL'' then ''Contact patient immediately''
         else ''Review and respond within expected timeframe'') @ nl @ nl @
      rstrip (''Alert ID: '' @ now_strftime e @ nl @ ''        ''))"
proof -
  have a: "CHR ''A'' \<in> set (''Alert ID: '' @ now_strftime e @ nl @ ''        '')" by simp
  have b: "\<not> is_space CHR ''A''" by (simp add: is_space_def)
  have "alert_template e patient_name m text r =
    strip (nl @ urgency_indicator r @
           ('': Patient Alert - '' @ patient_name @ nl @ nl @
            ''SYMPTOMS: '' @ text @ nl @
            ''PATIENT REPORT: '' @ dq @ take 150 m @ (if 150 < length m then ''...'' else []) @
            dq @ nl @ nl @ ''RISK LEVEL: '' @ py_str r @ nl @
            ''IMMEDIATE ACTION: '' @
              (if r = Some ''CRITICAL'' then ''Contact patient immediately''
               else ''Review and respond within expected timeframe'') @ nl @ nl) @
           (''Alert ID: '' @ now_strftime e @ nl @ ''        ''))"
    unfolding alert_template_def by (simp only: append_assoc)
  also have "\<dots> = urgency_indicator r @
           ('': Patient Alert - '' @ patient_name @ nl @ nl @
            ''SYMPTOMS: '' @ text @ nl @
            ''PATIENT REPORT: '' @ dq @ take 150 m @ (if 150 < length m then ''...'' else []) @
            dq @ nl @ nl @ ''RISK LEVEL: '' @ py_str r @ nl @
            ''IMMEDIATE ACTION: '' @
              (if r = Some ''CRITICAL'' then ''Contact patient immediately''
               else ''Review and respond within expected timeframe'') @ nl @ nl) @
           rstrip (''Alert ID: '' @ now_strftime e @ nl @ ''        '')"
    using a b by (rule strip_template)
  finally show ?thesis by (simp only: append_assoc)
qed

lemma symptoms_text_of_strings:
  "symptoms_text (Some (map Str xs)) =
     Inr (if xs \<noteq> [] then join '', '' xs else ''See details'')"
proof (cases xs)
  case Nil
  then show ?thesis by (simp add: symptoms_text_def)
next
  case (Cons y ys)
  have a: "list_all is_str (map Str zs)" for zs by (induction zs) simp_all
  have b: "strings_of (map Str zs) = zs" for zs by (induction zs) simp_all
  have "join_items '', '' (map Str (y # ys)) = Inr (join '', '' (y # ys))"
    using join_items_strings [OF a, of "'', ''" "y # ys"] by (simp only: b)
  with Cons show ?thesis by (simp add: symptoms_text_def)
qed

lemma created_alert_message:
  assumes "create_alert e h m (Some t) c p ts = Inr a"
  shows "format_alert_message e (get_or (pc_name c) ''Unknown Patient'') m
           (entry_get (ta_symptoms_identified t) []) (entry_get (ta_risk_level t) ''MODERATE'')
         = Inr (alert_message a)"
proof (cases "format_alert_message e (get_or (pc_name c) ''Unknown Patient'') m
           (entry_get (ta_symptoms_identified t) []) (entry_get (ta_risk_level t) ''MODERATE'')")
  case (Inl ex)
  with assms show ?thesis by (simp add: create_alert_def Let_def)
next
  case (Inr message)
  with assms have "alert_message a = message" by (auto simp: create_alert_def Let_def)
  with Inr show ?thesis by simp
qed

text \<open>
  C8: the rendered message of an alert holds, between the quotes of its PATIENT REPORT
  line, the patient message itself when it has at most 150 characters, and its first 150
  characters followed by the marker \<open>...\<close> when it has more; the text before and after
  does not depend on the patient message. This holds whenever a message is rendered, which
  is whenever the text of the symptoms can be built (for a list of strings it is their
  join, or \<open>See details\<close> for the empty list); otherwise the source raises and renders
  nothing. The rendered message of a created alert is the one of its patient message, for
  the patient name, the symptoms and the risk level \<open>_create_alert\<close> reads.
\<close>

theorem patient_report_truncated_at_150:
  "(let pre = urgency_indicator r @ '': Patient Alert - '' @ patient_name @ nl @ nl @
              ''SYMPTOMS: '' @ text @ nl @ ''PATIENT REPORT: '' @ dq;
        post = dq @ nl @ nl @ ''RISK LEVEL: '' @ py_str r @ nl @
               ''IMMEDIATE ACTION: '' @
                 (if r = Some ''CRITICAL'' then ''Contact patient immediately''
                  else ''Review and respond within expected timeframe'') @ nl @ nl @
               rstrip (''Alert ID: '' @ now_strftime e @ nl @ ''        '')
    in (symptoms_text symptoms = Inr text \<and> length m \<le> 150 \<longrightarrow>
          format_alert_message e patient_name m symptoms r = Inr (pre @ m @ post))
     \<and> (symptoms_text symptoms = Inr text \<and> 150 < length m \<longrightarrow>
          format_alert_message e patient_name m symptoms r
            = Inr (pre @ take 150 m @ ''...'' @ post)
          \<and> length (take 150 m) = 150))
   \<and> (symptoms_text symptoms = Inl ex \<longrightarrow>
         format_alert_message e patient_name m symptoms r = Inl ex)
   \<and> symptoms_text (Some (map Str xs))
       = Inr (if xs \<noteq> [] then join '', '' xs else ''See details'')
   \<and> (create_alert e h m (Some t) c p ts = Inr a \<longrightarrow>
         format_alert_message e (get_or (pc_name c) ''Unknown Patient'') m
           (entry_get (ta_symptoms_identified t) []) (entry_get (ta_risk_level t) ''MODERATE'')
         = Inr (alert_message a))"
proof -
  have 1: "symptoms_text symptoms = Inr text \<and> length m \<le> 150 \<longrightarrow>
          format_alert_message e patient_name m symptoms r =
            Inr ((urgency_indicator r @ '': Patient Alert - '' @ patient_name @ nl @ nl @
                  ''SYMPTOMS: '' @ text @ nl @ ''PATIENT REPORT: '' @ dq) @ m @
                 (dq @ nl @ nl @ ''RISK LEVEL: '' @ py_str r @ nl @
                  ''IMMEDIATE ACTION: '' @
                    (if r = Some ''CRITICAL'' then ''Contact patient immediately''
                     else ''Review and respond within expected timeframe'') @ nl @ nl @
                  rstrip (''Alert ID: '' @ now_strftime e @ nl @ ''        '')))"
    by (simp add: format_alert_message_def alert_template_layout)
  have 2: "symptoms_text symptoms = Inr text \<and> 150 < length m \<longrightarrow>
          format_alert_message e patient_name m symptoms r =
            Inr ((urgency_indicator r @ '': Patient Alert - '' @ patient_name @ nl @ nl @
                  ''SYMPTOMS: '' @ text @ nl @ ''PATIENT REPORT: '' @ dq) @ take 150 m @
                 ''...'' @
                 (dq @ nl @ nl @ ''RISK LEVEL: '' @ py_str r @ nl @
                  ''IMMEDIATE ACTION: '' @
                    (if r = Some ''CRITICAL'' then ''Contact patient immediately''
                     else ''Review and respond within expected timeframe'') @ nl @ nl @
                  rstrip (''Alert ID: '' @ now_strftime e @ nl @ ''        '')))
          \<and> length (take 150 m) = 150"
    by (simp add: format_alert_message_def alert_template_layout)
  have 3: "symptoms_text symptoms = Inl ex \<longrightarrow>
         format_alert_message e patient_name m symptoms r = Inl ex"
    by (simp add: format_alert_message_def)
  have 4: "create_alert e h m (Some t) c p ts = Inr a \<longrightarrow>
         format_alert_message e (get_or (pc_name c) ''Unknown Patient'') m
           (entry_get (ta_symptoms_identified t) []) (entry_get (ta_risk_level t) ''MODERATE'')
         = Inr (alert_message a)"
    by (rule impI) (rule created_alert_message)
  show ?thesis
    unfolding Let_def
    by (intro conjI) (rule 1, rule 2, rule 3, rule symptoms_text_of_strings, rule 4)
qed

theorem patient_report_truncated_at_150_witness:
  "symptoms_text (Some []) = Inr ''See details''
   \<and> length ''I have a high fever'' \<le> 150
   \<and> 150 < length (replicate 151 (CHR ''x''))
   \<and> format_alert_message mock_env ''Elena'' ''I have a high fever'' (Some []) (Some ''CRITICAL'') =
       Inr (urgency_indicator (Some ''CRITICAL'') @ '': Patient Alert - '' @ ''Elena'' @ nl @ nl @
            ''SYMPTOMS: '' @ ''See details'' @ nl @ ''PATIENT REPORT: '' @ dq @
            ''I have a high fever'' @
            dq @ nl @ nl @ ''RISK LEVEL: '' @ ''CRITICAL'' @ nl @
            ''IMMEDIATE ACTION: '' @ ''Contact patient immediately'' @ nl @ nl @
            rstrip (''Alert ID: '' @ now_strftime mock_env @ nl @ ''        ''))
   \<and> format_alert_message mock_env ''Elena'' (replicate 151 (CHR ''x'')) (Some [])
         (Some ''CRITICAL'') =
       Inr (urgency_indicator (Some ''CRITICAL'') @ '': Patient Alert - '' @ ''Elena'' @ nl @ nl @
            ''SYMPTOMS: '' @ ''See details'' @ nl @ ''PATIENT REPORT: '' @ dq @
            replicate 150 (CHR ''x'') @ ''...'' @
            dq @ nl @ nl @ ''RISK LEVEL: '' @ ''CRITICAL'' @ nl @
            ''IMMEDIATE ACTION: '' @ ''Contact patient immediately'' @ nl @ nl @
            rstrip (''Alert ID: '' @ now_strftime mock_env @ nl @ ''        ''))
   \<and> symptoms_text (Some [Str ''fever'', NotStr ''int''])
       = Inl ''sequence item 1: expected str instance, int found''
   \<and> format_alert_message mock_env ''Elena'' ''I have a high fever''
         (Some [Str ''fever'', NotStr ''int'']) (Some ''CRITICAL'')
       = Inl ''sequence item 1: expected str instance, int found''
   \<and> create_alert mock_env [] ''I have a high fever'' (Some test_assessment) test_context
         ''URGENT'' ''2025-01-01T08:00:00'' = Inr test_alert
   \<and> format_alert_message mock_env (get_or (pc_name test_context) ''Unknown Patient'')
         ''I have a high fever'' (entry_get (ta_symptoms_identified test_assessment) [])
         (entry_get (ta_risk_level test_assessment) ''MODERATE'')
       = Inr (alert_message test_alert)"
proof -
  have y: "symptoms_text (Some []) = Inr ''See details''" by (simp add: symptoms_text_def)
  have b: "symptoms_text (Some [Str ''fever'', NotStr ''int''])
             = Inl ''sequence item 1: expected str instance, int found''"
    by (simp add: symptoms_text_def join_items_def dec_1)
  note raised = patient_report_truncated_at_150
                 [of "Some ''CRITICAL''" "''Elena''" "''See details''" mock_env
                     "Some [Str ''fever'', NotStr ''int'']" "''I have a high fever''"
                     "''sequence item 1: expected str instance, int found''",
                  THEN conjunct2, THEN conjunct1, rule_format, OF b]
  note created = patient_report_truncated_at_150
                 [of "Some ''CRITICAL''" "''Elena''" "''See details''" mock_env "Some []"
                     "''I have a high fever''" "[]" "[]" "[]" test_assessment test_context
                     "''URGENT''" "''2025-01-01T08:00:00''" test_alert,
                  THEN conjunct2, THEN conjunct2, THEN conjunct2, rule_format,
                  OF create_test_alert]
  have s: "length ''I have a high fever'' \<le> 150" by simp
  have l: "150 < length (replicate 151 (CHR ''x''))" by simp
  have t: "take 150 (replicate 151 (CHR ''x'')) = replicate 150 (CHR ''x'')" by simp
  note short = patient_report_truncated_at_150
                 [of "Some ''CRITICAL''" "''Elena''" "''See details''" mock_env "Some []"
                     "''I have a high fever''",
                  unfolded Let_def, THEN conjunct1, THEN conjunct1, rule_format, OF conjI [OF y s]]
  note long = patient_report_truncated_at_150
                 [of "Some ''CRITICAL''" "''Elena''" "''See details''" mock_env "Some []"
                     "replicate 151 (CHR ''x'')",
                  unfolded Let_def, THEN conjunct1, THEN conjunct2, rule_format, OF conjI [OF y l],
                  THEN conjunct1, unfolded t]
  have 1: "format_alert_message mock_env ''Elena'' ''I have a high fever'' (Some [])
             (Some ''CRITICAL'') =
       Inr (urgency_indicator (Some ''CRITICAL'') @ '': Patient Alert - '' @ ''Elena'' @ nl @ nl @
            ''SYMPTOMS: '' @ ''See details'' @ nl @ ''PATIENT REPORT: '' @ dq @
            ''I have a high fever'' @
            dq @ nl @ nl @ ''RISK LEVEL: '' @ ''CRITICAL'' @ nl @
            ''IMMEDIATE ACTION: '' @ ''Contact patient immediately'' @ nl @ nl @
            rstrip (''Alert ID: '' @ now_strftime mock_env @ nl @ ''        ''))"
    using short by (simp add: py_str_def)
  have 2: "format_alert_message mock_env ''Elena'' (replicate 151 (CHR ''x'')) (Some [])
             (Some ''CRITICAL'') =
       Inr (urgency_indicator (Some ''CRITICAL'') @ '': Patient Alert - '' @ ''Elena'' @ nl @ nl @
            ''SYMPTOMS: '' @ ''See details'' @ nl @ ''PATIENT REPORT: '' @ dq @
            replicate 150 (CHR ''x'') @ ''...'' @
            dq @ nl @ nl @ ''RISK LEVEL: '' @ ''CRITICAL'' @ nl @
            ''IMMEDIATE ACTION: '' @ ''Contact patient immediately'' @ nl @ nl @
            rstrip (''Alert ID: '' @ now_strftime mock_env @ nl @ ''        ''))"
    using long by (simp add: py_str_def)
  show ?thesis
    by (intro conjI)
       (rule y, rule s, rule l, rule 1, rule 2, rule b, rule raised, rule create_test_alert,
        rule created)
qed


section \<open>Alert ids\<close>

lemma digit_char_inj: "a < 10 \<Longrightarrow> b < 10 \<Longrightarrow> digit_char a = digit_char b \<Longrightarrow> a = b"
  unfolding digit_char_def by (simp split: if_splits; arith)

lemma digit_char_not_underscore: "digit_char d \<noteq> CHR ''_''"
  by (simp add: digit_char_def)

lemma dec_nonempty: "dec n \<noteq> []"
  by (subst dec.simps) simp

lemma dec_small: "n < 10 \<Longrightarrow> dec n = [digit_char n]"
  by (subst dec.simps) simp

lemma dec_large: "\<not> n < 10 \<Longrightarrow> dec n = dec (n div 10) @ [digit_char (n mod 10)]"
  by (subst dec.simps) simp

lemma dec_no_underscore: "CHR ''_'' \<notin> set (dec n)"
proof (induction n rule: dec.induct)
  case (1 n)
  show ?case
  proof (cases "n < 10")
    case True
    then show ?thesis using digit_char_not_underscore [of n] by (simp add: dec_small)
  next
    case False
    then show ?thesis
      using "1" digit_char_not_underscore [of "n mod 10"] by (simp add: dec_large)
  qed
qed

lemma dec_inj: "dec m = dec n \<Longrightarrow> m = n"
proof (induction m arbitrary: n rule: dec.induct)
  case (1 m)
  show ?case
  proof (cases "m < 10")
    case m: True
    show ?thesis
    proof (cases "n < 10")
      case True
      with m "1.prems" show ?thesis by (simp add: dec_small digit_char_inj)
    next
      case False
      with m "1.prems" dec_nonempty [of "n div 10"] show ?thesis
        by (simp add: dec_small dec_large Cons_eq_append_conv)
    qed
  next
    case m: False
    show ?thesis
    proof (cases "n < 10")
      case True
      with m "1.prems" dec_nonempty [of "m div 10"] show ?thesis
        by (simp add: dec_small dec_large append_eq_Cons_conv)
    next
      case False
      with m "1.prems" have eq: "dec (m div 10) = dec (n div 10)"
        and d: "digit_char (m mod 10) = digit_char (n mod 10)"
        by (simp_all add: dec_large)
      from "1.IH" [OF m eq] have "m div 10 = n div 10" .
      moreover from d have "m mod 10 = n mod 10" by (intro digit_char_inj) simp_all
      ultimately show ?thesis by (metis div_mult_mod_eq)
    qed
  qed
qed

lemma prefix_before_separator:
  "c \<notin> set x \<Longrightarrow> c \<notin> set y \<Longrightarrow> x @ c # u = y @ c # v \<Longrightarrow> x = y"
proof (induction x arbitrary: y)
  case Nil
  then show ?case by (cases y) auto
next
  case (Cons a x)
  then show ?case by (cases y) auto
qed

lemma mk_alert_id_inj: "mk_alert_id k st = mk_alert_id k' st' \<Longrightarrow> k = k'"
proof -
  assume "mk_alert_id k st = mk_alert_id k' st'"
  then have "dec k @ CHR ''_'' # st = dec k' @ CHR ''_'' # st'" by (simp add: mk_alert_id_def)
  then have "dec k = dec k'"
    by (rule prefix_before_separator [OF dec_no_underscore dec_no_underscore])
  then show ?thesis by (rule dec_inj)
qed

lemma create_alert_id:
  "create_alert e h m t c p ts = Inr a \<Longrightarrow>
     alert_id a = mk_alert_id (length h + 1) (now_strftime e)"
  by (simp add: create_alert_fields(1) mk_alert_id_def)


section \<open>The escalation loop\<close>

lemma find_split:
  "find P xs = Some a \<Longrightarrow> \<exists>pre post. xs = pre @ a # post \<and> P a \<and> (\<forall>b\<in>set pre. \<not> P b)"
proof (induction xs)
  case Nil
  then show ?case by simp
next
  case (Cons x xs)
  show ?case
  proof (cases "P x")
    case True
    with Cons.prems have "x = a" by simp
    with True show ?thesis by (intro exI [of _ "[]"] exI [of _ xs]) simp
  next
    case False
    with Cons obtain pre post where "xs = pre @ a # post" "P a" "\<forall>b\<in>set pre. \<not> P b"
      by auto
    with False show ?thesis by (intro exI [of _ "x # pre"] exI [of _ post]) simp
  qed
qed

lemma find_first:
  "\<forall>b\<in>set pre. \<not> P b \<Longrightarrow> P a \<Longrightarrow> find P (pre @ a # post) = Some a"
  by (induction pre) simp_all

lemma find_none: "\<forall>b\<in>set xs. \<not> P b \<Longrightarrow> find P xs = None"
  by (induction xs) simp_all

text \<open>
  The loop, when the first alert with the requested id is \<open>a\<close>: it is changed in place
  and \<open>send_alert\<close> is called for it with the new priority.
\<close>

lemma escalate_loop_found:
  assumes "er_alert_id rq = Some i" and "alert_id a = i" and "\<forall>b\<in>set pre. alert_id b \<noteq> i"
  shows "escalate_loop e s rq before (pre @ a # post) =
           (let np = get_or (er_new_priority rq) ''URGENT'';
                a' = a\<lparr>priority := np, escalation_level := escalation_level a + 1\<rparr>;
                sent = send_alert e (s\<lparr>alert_history := (before @ pre) @ a' # post\<rparr>)
                         \<lparr>req_patient_message =
                            Some (''ESCALATED: '' @ pi_original_message (patient_info a)),
                          req_triage_assessment = Present (triage_assessment a),
                          req_patient_context =
                            Present \<lparr>pc_name = Some (pi_name (patient_info a)),
                                     pc_condition = Some (pi_condition (patient_info a))\<rparr>,
                          req_priority = Some np,
                          req_timestamp = Some (now_isoformat e)\<rparr>
            in (Escalated i (priority a) np (escalation_level a + 1) (fst sent), snd sent))"
  using assms
proof (induction pre arbitrary: before)
  case Nil
  then show ?case by (simp add: Let_def split_beta)
next
  case (Cons b pre)
  from Cons.prems have "Some (alert_id b) \<noteq> er_alert_id rq" by simp
  moreover from Cons.prems have "\<forall>b\<in>set pre. alert_id b \<noteq> i" by simp
  ultimately show ?case
    using Cons.IH [of "before @ [b]"] Cons.prems(1,2) by simp
qed

lemma escalate_loop_not_found:
  assumes "\<forall>b\<in>set rest. Some (alert_id b) \<noteq> er_alert_id rq"
  shows "escalate_loop e s rq before rest =
           (EscalateNotFound (''Alert '' @ get_or (er_alert_id rq) ''None'' @ '' not found''), s)"
  using assms by (induction rest arbitrary: before) simp_all

text \<open>
  The history after \<open>send_alert\<close> for a request whose patient context and assessment are
  dictionaries: one alert longer when the alert could be created, the same otherwise.
\<close>

lemma send_alert_history_present:
  assumes "req_patient_context rq = Present c" and "req_triage_assessment rq = Present t"
  shows "alert_history (snd (send_alert e s rq)) =
           alert_history s @
             (case create_alert e (alert_history s) (get_or (req_patient_message rq) []) (Some t) c
                     (get_or (req_priority rq) ''HIGH'')
                     (get_or (req_timestamp rq) (now_isoformat e)) of
                Inr a \<Rightarrow> [a]
              | Inl ex \<Rightarrow> [])"
  using assms by (simp add: send_alert_def Let_def entry_get_def split: sum.splits)

text \<open>
  \<open>escalate_alert\<close> for an id the store holds: the first alert with that id is changed in
  place, and the alert that \<open>send_alert\<close> creates for it, if it creates one, is appended.
\<close>

lemma escalate_alert_found:
  assumes "find_alert i (alert_history s) = Some a" and "er_alert_id rq = Some i"
  shows "\<exists>pre post.
           alert_history s = pre @ a # post
         \<and> (\<forall>b\<in>set pre. alert_id b \<noteq> i)
         \<and> alert_id a = i
         \<and> alert_history (snd (escalate_alert e s rq)) =
             pre @ a\<lparr>priority := get_or (er_new_priority rq) ''URGENT'',
                     escalation_level := escalation_level a + 1\<rparr> # post @
             (case create_alert e (alert_history s)
                     (''ESCALATED: '' @ pi_original_message (patient_info a))
                     (Some (triage_assessment a))
                     \<lparr>pc_name = Some (pi_name (patient_info a)),
                      pc_condition = Some (pi_condition (patient_info a))\<rparr>
                     (get_or (er_new_priority rq) ''URGENT'') (now_isoformat e) of
                Inr new \<Rightarrow> [new]
              | Inl ex \<Rightarrow> [])
         \<and> escalate_status (fst (escalate_alert e s rq)) = ''escalated''
         \<and> es_alert_id (fst (escalate_alert e s rq)) = i
         \<and> es_old_priority (fst (escalate_alert e s rq)) = priority a
         \<and> es_new_priority (fst (escalate_alert e s rq)) = get_or (er_new_priority rq) ''URGENT''
         \<and> es_escalation_level (fst (escalate_alert e s rq)) = escalation_level a + 1"
proof -
  from assms(1) obtain pre post where
    h: "alert_history s = pre @ a # post" and a: "alert_id a = i"
    and pre: "\<forall>b\<in>set pre. alert_id b \<noteq> i"
    unfolding find_alert_def by (blast dest: find_split)
  let ?np = "get_or (er_new_priority rq) ''URGENT''"
  let ?a' = "a\<lparr>priority := ?np, escalation_level := escalation_level a + 1\<rparr>"
  let ?c = "\<lparr>pc_name = Some (pi_name (patient_info a)),
             pc_condition = Some (pi_condition (patient_info a))\<rparr>"
  let ?rq = "\<lparr>req_patient_message = Some (''ESCALATED: '' @ pi_original_message (patient_info a)),
             req_triage_assessment = Present (triage_assessment a),
             req_patient_context = Present ?c,
             req_priority = Some ?np,
             req_timestamp = Some (now_isoformat e)\<rparr>"
  have len: "length (pre @ ?a' # post) = length (alert_history s)"
    by (simp add: h)
  note loop = escalate_loop_found [OF assms(2) a pre, of e s "[]" post, unfolded Let_def]
  have sent: "alert_history (snd (send_alert e (s\<lparr>alert_history := pre @ ?a' # post\<rparr>) ?rq)) =
                (pre @ ?a' # post) @
                (case create_alert e (pre @ ?a' # post)
                        (''ESCALATED: '' @ pi_original_message (patient_info a))
                        (Some (triage_assessment a)) ?c ?np (now_isoformat e) of
                   Inr new \<Rightarrow> [new]
                 | Inl ex \<Rightarrow> [])"
    using send_alert_history_present
            [of ?rq ?c "triage_assessment a" e "s\<lparr>alert_history := pre @ ?a' # post\<rparr>"]
    by (simp add: get_or_def)
  have 1: "alert_history (snd (escalate_alert e s rq)) =
             pre @ ?a' # post @
             (case create_alert e (alert_history s)
                     (''ESCALATED: '' @ pi_original_message (patient_info a))
                     (Some (triage_assessment a)) ?c ?np (now_isoformat e) of
                Inr new \<Rightarrow> [new]
              | Inl ex \<Rightarrow> [])"
    unfolding escalate_alert_def h loop
    using sent create_alert_length [OF len]
    by (simp add: h)
  have 2: "escalate_status (fst (escalate_alert e s rq)) = ''escalated''"
    "es_alert_id (fst (escalate_alert e s rq)) = i"
    "es_old_priority (fst (escalate_alert e s rq)) = priority a"
    "es_new_priority (fst (escalate_alert e s rq)) = ?np"
    "es_escalation_level (fst (escalate_alert e s rq)) = escalation_level a + 1"
    unfolding escalate_alert_def h loop by simp_all
  show ?thesis
    by (intro exI [of _ pre] exI [of _ post] conjI)
       (rule h, rule pre, rule a, rule 1, rule 2(1), rule 2(2), rule 2(3), rule 2(4), rule 2(5))
qed


section \<open>Escalation levels\<close>

lemma test_alert_id: "alert_id test_alert = ''ALERT_1_20250101_080000''"
  by (simp add: test_alert_def)

lemma after_test_request_reachable: "reachable after_test_request"
  unfolding after_test_request_def by (rule reachable_send) (rule reachable_init)

lemma after_test_request_find:
  "find_alert ''ALERT_1_20250101_080000'' (alert_history after_test_request) = Some test_alert"
  by (simp add: find_alert_def after_test_request_history test_alert_id)

text \<open>
  C6: when the store holds an alert with the requested id, an escalate call leaves the
  escalation level of that alert (the first alert of the history with that id) one
  greater, and reports that level; a second escalate call for the same id, whatever its
  clock, senders and new priority, leaves it two greater than before the first call.
\<close>

theorem escalate_increments_level:
  assumes "find_alert i (alert_history s) = Some a"
    and "er_alert_id rq = Some i" and "er_alert_id rq' = Some i"
  shows "map_option escalation_level
           (find_alert i (alert_history (snd (escalate_alert e s rq))))
           = Some (escalation_level a + 1)
       \<and> es_escalation_level (fst (escalate_alert e s rq)) = escalation_level a + 1
       \<and> map_option escalation_level
           (find_alert i
              (alert_history (snd (escalate_alert e' (snd (escalate_alert e s rq)) rq'))))
           = Some (escalation_level a + 2)"
proof -
  have step: "find_alert i (alert_history (snd (escalate_alert e s rq)))
                = Some (b\<lparr>priority := get_or (er_new_priority rq) ''URGENT'',
                          escalation_level := escalation_level b + 1\<rparr>)
              \<and> es_escalation_level (fst (escalate_alert e s rq)) = escalation_level b + 1"
    if "find_alert i (alert_history s) = Some b" and "er_alert_id rq = Some i"
    for e s rq b
  proof -
    from escalate_alert_found [OF that, of e] obtain pre post where
      pre: "\<forall>b\<in>set pre. alert_id b \<noteq> i" and b: "alert_id b = i"
      and h: "alert_history (snd (escalate_alert e s rq)) =
             pre @ b\<lparr>priority := get_or (er_new_priority rq) ''URGENT'',
                     escalation_level := escalation_level b + 1\<rparr> # post @
             (case create_alert e (alert_history s)
                     (''ESCALATED: '' @ pi_original_message (patient_info b))
                     (Some (triage_assessment b))
                     \<lparr>pc_name = Some (pi_name (patient_info b)),
                      pc_condition = Some (pi_condition (patient_info b))\<rparr>
                     (get_or (er_new_priority rq) ''URGENT'') (now_isoformat e) of
                Inr new \<Rightarrow> [new]
              | Inl ex \<Rightarrow> [])"
      and l: "es_escalation_level (fst (escalate_alert e s rq)) = escalation_level b + 1"
      by blast
    have "find (\<lambda>x. alert_id x = i) (alert_history (snd (escalate_alert e s rq)))
            = Some (b\<lparr>priority := get_or (er_new_priority rq) ''URGENT'',
                      escalation_level := escalation_level b + 1\<rparr>)"
      unfolding h using pre b by (intro find_first) simp_all
    with l show ?thesis by (simp add: find_alert_def)
  qed
  note first = step [OF assms(1,2), of e]
  note second = step [OF conjunct1 [OF first] assms(3), of e']
  from first second show ?thesis by simp
qed

theorem escalate_increments_level_witness:
  "find_alert ''ALERT_1_20250101_080000'' (alert_history after_test_request) = Some test_alert
   \<and> er_alert_id test_escalation = Some ''ALERT_1_20250101_080000''
   \<and> escalation_level test_alert = 0
   \<and> map_option escalation_level
        (find_alert ''ALERT_1_20250101_080000''
           (alert_history (snd (escalate_alert mock_env after_test_request test_escalation))))
       = Some 1
   \<and> map_option escalation_level
        (find_alert ''ALERT_1_20250101_080000''
           (alert_history
              (snd (escalate_alert failing_env
                      (snd (escalate_alert mock_env after_test_request test_escalation))
                      test_escalation))))
       = Some 2"
proof -
  have r: "er_alert_id test_escalation = Some ''ALERT_1_20250101_080000''"
    by (simp add: test_escalation_def)
  have l: "escalation_level test_alert = 0"
    by (simp add: test_alert_def)
  from escalate_increments_level [OF after_test_request_find r r, of mock_env failing_env]
    after_test_request_find r l
  show ?thesis by simp
qed


section \<open>Alert ids stay numbered\<close>

lemma numbered_ids_iff:
  "numbered_ids h =
     (\<forall>a\<in>set h. \<exists>k stamp. k \<le> length h \<and> alert_id a = mk_alert_id k stamp)"
  by (simp add: numbered_ids_def list_all_iff)

lemma numbered_ids_append:
  assumes "numbered_ids h" and "alert_id a = mk_alert_id (length h + 1) st"
  shows "numbered_ids (h @ [a])"
proof -
  have "\<exists>k stamp. k \<le> length (h @ [a]) \<and> alert_id b = mk_alert_id k stamp"
    if "b \<in> set (h @ [a])" for b
  proof (cases "b \<in> set h")
    case True
    with assms(1) obtain k stamp where "k \<le> length h" "alert_id b = mk_alert_id k stamp"
      unfolding numbered_ids_iff by blast
    then have "k \<le> length (h @ [a]) \<and> alert_id b = mk_alert_id k stamp" by simp
    then show ?thesis by blast
  next
    case False
    with that have "b = a" by simp
    with assms(2) have "length h + 1 \<le> length (h @ [a])
                        \<and> alert_id b = mk_alert_id (length h + 1) st" by simp
    then show ?thesis by blast
  qed
  then show ?thesis unfolding numbered_ids_iff by blast
qed

lemma numbered_ids_same_ids:
  assumes "numbered_ids h" and "alert_id ` set h' = alert_id ` set h" and "length h' = length h"
  shows "numbered_ids h'"
proof -
  have "\<exists>k stamp. k \<le> length h' \<and> alert_id b = mk_alert_id k stamp" if "b \<in> set h'" for b
  proof -
    from that assms(2) obtain c where "c \<in> set h" "alert_id c = alert_id b" by force
    with assms(1) obtain k stamp where "k \<le> length h" "alert_id b = mk_alert_id k stamp"
      unfolding numbered_ids_iff by metis
    with assms(3) have "k \<le> length h' \<and> alert_id b = mk_alert_id k stamp" by simp
    then show ?thesis by blast
  qed
  then show ?thesis unfolding numbered_ids_iff by blast
qed

lemma numbered_ids_fresh:
  assumes "numbered_ids h"
  shows "mk_alert_id (length h + 1) st \<notin> alert_id ` set h"
proof
  assume "mk_alert_id (length h + 1) st \<in> alert_id ` set h"
  then obtain b where "b \<in> set h" "alert_id b = mk_alert_id (length h + 1) st" by force
  moreover from this assms obtain k stamp where "k \<le> length h" "alert_id b = mk_alert_id k stamp"
    unfolding numbered_ids_iff by blast
  ultimately have "mk_alert_id k stamp = mk_alert_id (length h + 1) st" "k \<le> length h" by simp_all
  then show False using mk_alert_id_inj [of k stamp "length h + 1" st] by simp
qed

lemma update_provider_status_history:
  "alert_history (snd (update_provider_status s r)) = alert_history s"
  by (simp add: update_provider_status_def split: option.splits)

lemma sort_newest_first_set: "set (sort_newest_first h) = set h"
  by (simp add: sort_newest_first_def)

lemma sort_newest_first_length: "length (sort_newest_first h) = length h"
  by (simp add: sort_newest_first_def)

lemma get_alert_history_history:
  "alert_history (snd (get_alert_history s r)) = alert_history s
   \<or> alert_history (snd (get_alert_history s r)) = sort_newest_first (alert_history s)"
  by (simp add: get_alert_history_def Let_def split: option.splits list.splits)

lemma escalate_alert_not_found:
  assumes "\<forall>b\<in>set (alert_history s). Some (alert_id b) \<noteq> er_alert_id rq"
  shows "escalate_alert e s rq =
           (EscalateNotFound (''Alert '' @ get_or (er_alert_id rq) ''None'' @ '' not found''), s)"
  unfolding escalate_alert_def using assms by (rule escalate_loop_not_found)

text \<open>
  What an escalate call does to the history: nothing, or it changes one alert in place,
  priority and escalation level only, and appends at most the alert \<open>_create_alert\<close> built.
\<close>

lemma escalate_alert_history_cases:
  "alert_history (snd (escalate_alert e s rq)) = alert_history s
   \<or> (\<exists>pre a post np tail.
         alert_history s = pre @ a # post
       \<and> alert_history (snd (escalate_alert e s rq)) =
           (pre @ a\<lparr>priority := np, escalation_level := escalation_level a + 1\<rparr> # post) @ tail
       \<and> (tail = [] \<or> (\<exists>new m t c p ts. tail = [new]
                          \<and> create_alert e (alert_history s) m t c p ts = Inr new)))"
proof (cases "\<forall>b\<in>set (alert_history s). Some (alert_id b) \<noteq> er_alert_id rq")
  case True
  then show ?thesis by (simp add: escalate_alert_not_found)
next
  case False
  then obtain b where b: "b \<in> set (alert_history s)" "er_alert_id rq = Some (alert_id b)"
    by force
  then have "find (\<lambda>a. alert_id a = alert_id b) (alert_history s) \<noteq> None"
    by (auto simp: find_None_iff)
  then obtain a where "find_alert (alert_id b) (alert_history s) = Some a"
    unfolding find_alert_def by blast
  from escalate_alert_found [OF this b(2), of e] obtain pre post where
    h: "alert_history s = pre @ a # post"
    and h': "alert_history (snd (escalate_alert e s rq)) =
             pre @ a\<lparr>priority := get_or (er_new_priority rq) ''URGENT'',
                     escalation_level := escalation_level a + 1\<rparr> # post @
             (case create_alert e (alert_history s)
                     (''ESCALATED: '' @ pi_original_message (patient_info a))
                     (Some (triage_assessment a))
                     \<lparr>pc_name = Some (pi_name (patient_info a)),
                      pc_condition = Some (pi_condition (patient_info a))\<rparr>
                     (get_or (er_new_priority rq) ''URGENT'') (now_isoformat e) of
                Inr new \<Rightarrow> [new]
              | Inl ex \<Rightarrow> [])"
    by blast
  let ?np = "get_or (er_new_priority rq) ''URGENT''"
  let ?created = "create_alert e (alert_history s)
                     (''ESCALATED: '' @ pi_original_message (patient_info a))
                     (Some (triage_assessment a))
                     \<lparr>pc_name = Some (pi_name (patient_info a)),
                      pc_condition = Some (pi_condition (patient_info a))\<rparr>
                     ?np (now_isoformat e)"
  let ?tail = "case ?created of Inr new \<Rightarrow> [new] | Inl ex \<Rightarrow> []"
  have t: "?tail = [] \<or> (\<exists>new m t c p ts. ?tail = [new]
                          \<and> create_alert e (alert_history s) m t c p ts = Inr new)"
  proof (cases ?created)
    case (Inl ex)
    then show ?thesis by simp
  next
    case (Inr new)
    then have "?tail = [new] \<and> ?created = Inr new" by simp
    then show ?thesis by blast
  qed
  have h'': "alert_history (snd (escalate_alert e s rq)) =
           (pre @ a\<lparr>priority := ?np, escalation_level := escalation_level a + 1\<rparr> # post) @ ?tail"
    unfolding h' by simp
  from h h'' t show ?thesis by blast
qed

lemma numbered_ids_escalate:
  assumes "numbered_ids (alert_history s)"
  shows "numbered_ids (alert_history (snd (escalate_alert e s rq)))"
proof -
  from escalate_alert_history_cases [of e s rq] consider
    (same) "alert_history (snd (escalate_alert e s rq)) = alert_history s"
    | (found) pre a post np tail where "alert_history s = pre @ a # post"
       "alert_history (snd (escalate_alert e s rq)) =
           (pre @ a\<lparr>priority := np, escalation_level := escalation_level a + 1\<rparr> # post) @ tail"
       "tail = [] \<or> (\<exists>new m t c p ts. tail = [new]
                          \<and> create_alert e (alert_history s) m t c p ts = Inr new)"
    by blast
  then show ?thesis
  proof cases
    case same
    with assms show ?thesis by simp
  next
    case found
    let ?mid = "pre @ a\<lparr>priority := np, escalation_level := escalation_level a + 1\<rparr> # post"
    have len: "length ?mid = length (alert_history s)" by (simp add: found(1))
    have mid: "numbered_ids ?mid"
      using assms by (rule numbered_ids_same_ids) (simp_all add: found(1))
    from found(3) show ?thesis
    proof
      assume "tail = []"
      with mid found(2) show ?thesis by simp
    next
      assume "\<exists>new m t c p ts. tail = [new]
                \<and> create_alert e (alert_history s) m t c p ts = Inr new"
      then obtain new m t c p ts where n: "tail = [new]"
        and c: "create_alert e (alert_history s) m t c p ts = Inr new"
        by blast
      have "alert_id new = mk_alert_id (length ?mid + 1) (now_strftime e)"
        unfolding len by (rule create_alert_id [OF c])
      with mid have "numbered_ids (?mid @ [new])" by (rule numbered_ids_append)
      with found(2) n show ?thesis by simp
    qed
  qed
qed

lemma reachable_numbered_ids: "reachable s \<Longrightarrow> numbered_ids (alert_history s)"
proof (induction rule: reachable.induct)
  case reachable_init
  show ?case by (simp add: initial_state_def numbered_ids_def)
next
  case (reachable_send s e request)
  from send_alert_history_cases [of e s request] show ?case
  proof
    assume "alert_history (snd (send_alert e s request)) = alert_history s"
    with reachable_send.IH show ?thesis by simp
  next
    assume "\<exists>a m t c p ts. create_alert e (alert_history s) m t c p ts = Inr a
              \<and> alert_history (snd (send_alert e s request)) = alert_history s @ [a]"
    then obtain a m t c p ts where c: "create_alert e (alert_history s) m t c p ts = Inr a"
      and h: "alert_history (snd (send_alert e s request)) = alert_history s @ [a]"
      by blast
    from reachable_send.IH create_alert_id [OF c] show ?thesis
      unfolding h by (rule numbered_ids_append)
  qed
next
  case (reachable_history s hrequest)
  then show ?case
    using get_alert_history_history [of s hrequest]
      numbered_ids_same_ids [of "alert_history s" "sort_newest_first (alert_history s)"]
    by (auto simp: sort_newest_first_set sort_newest_first_length)
next
  case (reachable_status s srequest)
  then show ?case by (simp add: update_provider_status_history)
next
  case (reachable_escalate s e erequest)
  from reachable_escalate.IH show ?case by (rule numbered_ids_escalate)
qed

text \<open>
  Every alert of the history of a reachable state embeds an assessment whose symptoms are
  strings: \<open>_create_alert\<close> raises on any other, and nothing changes the assessment of a
  stored alert.
\<close>

lemma stored_strings_only_iff:
  "stored_strings_only h = (\<forall>a\<in>set h. strings_only (triage_assessment a))"
  by (simp add: stored_strings_only_def list_all_iff)

lemma stored_strings_only_escalate:
  assumes "stored_strings_only (alert_history s)"
  shows "stored_strings_only (alert_history (snd (escalate_alert e s rq)))"
proof -
  from escalate_alert_history_cases [of e s rq] consider
    (same) "alert_history (snd (escalate_alert e s rq)) = alert_history s"
    | (found) pre a post np tail where "alert_history s = pre @ a # post"
       "alert_history (snd (escalate_alert e s rq)) =
           (pre @ a\<lparr>priority := np, escalation_level := escalation_level a + 1\<rparr> # post) @ tail"
       "tail = [] \<or> (\<exists>new m t c p ts. tail = [new]
                          \<and> create_alert e (alert_history s) m t c p ts = Inr new)"
    by blast
  then show ?thesis
  proof cases
    case same
    with assms show ?thesis by simp
  next
    case found
    let ?mid = "pre @ a\<lparr>priority := np, escalation_level := escalation_level a + 1\<rparr> # post"
    have mid: "stored_strings_only ?mid"
      using assms unfolding found(1) stored_strings_only_def by simp
    from found(3) show ?thesis
    proof
      assume "tail = []"
      with mid found(2) show ?thesis by simp
    next
      assume "\<exists>new m t c p ts. tail = [new]
                \<and> create_alert e (alert_history s) m t c p ts = Inr new"
      then obtain new m t c p ts where n: "tail = [new]"
        and c: "create_alert e (alert_history s) m t c p ts = Inr new"
        by blast
      from create_alert_fields(5) [OF c] mid have "stored_strings_only (?mid @ [new])"
        unfolding stored_strings_only_def by simp
      with found(2) n show ?thesis by simp
    qed
  qed
qed

lemma reachable_stored_strings_only: "reachable s \<Longrightarrow> stored_strings_only (alert_history s)"
proof (induction rule: reachable.induct)
  case reachable_init
  show ?case by (simp add: initial_state_def stored_strings_only_def)
next
  case (reachable_send s e request)
  from send_alert_history_cases [of e s request] show ?case
  proof
    assume "alert_history (snd (send_alert e s request)) = alert_history s"
    with reachable_send.IH show ?thesis by simp
  next
    assume "\<exists>a m t c p ts. create_alert e (alert_history s) m t c p ts = Inr a
              \<and> alert_history (snd (send_alert e s request)) = alert_history s @ [a]"
    then obtain a m t c p ts where c: "create_alert e (alert_history s) m t c p ts = Inr a"
      and h: "alert_history (snd (send_alert e s request)) = alert_history s @ [a]"
      by blast
    from reachable_send.IH create_alert_fields(5) [OF c] show ?thesis
      unfolding h stored_strings_only_def by simp
  qed
next
  case (reachable_history s hrequest)
  from get_alert_history_history [of s hrequest] show ?case
  proof
    assume "alert_history (snd (get_alert_history s hrequest)) = alert_history s"
    with reachable_history.IH show ?thesis by simp
  next
    assume "alert_history (snd (get_alert_history s hrequest))
              = sort_newest_first (alert_history s)"
    with reachable_history.IH show ?thesis
      by (simp add: stored_strings_only_iff sort_newest_first_set)
  qed
next
  case (reachable_status s srequest)
  then show ?case by (simp add: update_provider_status_history)
next
  case (reachable_escalate s e erequest)
  from reachable_escalate.IH show ?case by (rule stored_strings_only_escalate)
qed


section \<open>Escalation appends a new alert\<close>

text \<open>
  C9: in a reachable state, an escalate call for an id the store holds changes the first
  alert with that id in place (new priority, escalation level one greater) and appends
  exactly one new alert at the end of the history, the one \<open>_create_alert\<close> builds, without
  raising, from the assessment of the stored alert: its id is the id of no stored alert,
  its escalation level is 0, its patient message is the original one prefixed with
  \<open>ESCALATED: \<close>, and its priority is the new priority. The history is one longer.
\<close>

theorem escalate_appends_new_alert:
  assumes "reachable s" and "find_alert i (alert_history s) = Some a"
    and "er_alert_id rq = Some i"
  shows "\<exists>pre post new.
           alert_history s = pre @ a # post
         \<and> (\<forall>b\<in>set pre. alert_id b \<noteq> i)
         \<and> alert_history (snd (escalate_alert e s rq)) =
             pre @ a\<lparr>priority := get_or (er_new_priority rq) ''URGENT'',
                     escalation_level := escalation_level a + 1\<rparr> # post @ [new]
         \<and> create_alert e (alert_history s)
             (''ESCALATED: '' @ pi_original_message (patient_info a))
             (Some (triage_assessment a))
             \<lparr>pc_name = Some (pi_name (patient_info a)),
              pc_condition = Some (pi_condition (patient_info a))\<rparr>
             (get_or (er_new_priority rq) ''URGENT'') (now_isoformat e) = Inr new
         \<and> alert_id new \<notin> alert_id ` set (alert_history s)
         \<and> escalation_level new = 0
         \<and> pi_original_message (patient_info new)
             = ''ESCALATED: '' @ pi_original_message (patient_info a)
         \<and> priority new = get_or (er_new_priority rq) ''URGENT''
         \<and> length (alert_history (snd (escalate_alert e s rq))) = length (alert_history s) + 1
         \<and> escalate_status (fst (escalate_alert e s rq)) = ''escalated''"
proof -
  let ?created = "create_alert e (alert_history s)
                (''ESCALATED: '' @ pi_original_message (patient_info a))
                (Some (triage_assessment a))
                \<lparr>pc_name = Some (pi_name (patient_info a)),
                 pc_condition = Some (pi_condition (patient_info a))\<rparr>
                (get_or (er_new_priority rq) ''URGENT'') (now_isoformat e)"
  from escalate_alert_found [OF assms(2,3), of e] obtain pre post where
    h: "alert_history s = pre @ a # post"
    and pre: "\<forall>b\<in>set pre. alert_id b \<noteq> i"
    and h0: "alert_history (snd (escalate_alert e s rq)) =
             pre @ a\<lparr>priority := get_or (er_new_priority rq) ''URGENT'',
                     escalation_level := escalation_level a + 1\<rparr> # post @
             (case ?created of Inr new \<Rightarrow> [new] | Inl ex \<Rightarrow> [])"
    and st: "escalate_status (fst (escalate_alert e s rq)) = ''escalated''"
    by blast
  from reachable_stored_strings_only [OF assms(1)] have "strings_only (triage_assessment a)"
    unfolding stored_strings_only_iff h by simp
  from create_alert_builds [OF this] obtain new where c: "?created = Inr new"
    by blast
  have h': "alert_history (snd (escalate_alert e s rq)) =
             pre @ a\<lparr>priority := get_or (er_new_priority rq) ''URGENT'',
                     escalation_level := escalation_level a + 1\<rparr> # post @ [new]"
    unfolding h0 c by simp
  have fresh: "alert_id new \<notin> alert_id ` set (alert_history s)"
    unfolding create_alert_id [OF c]
    by (rule numbered_ids_fresh) (rule reachable_numbered_ids [OF assms(1)])
  have len: "length (alert_history (snd (escalate_alert e s rq))) = length (alert_history s) + 1"
    unfolding h' h by simp
  show ?thesis
    by (intro exI [of _ pre] exI [of _ post] exI [of _ new] conjI)
       (rule h, rule pre, rule h', rule c, rule fresh, rule create_alert_fields(13) [OF c],
        rule create_alert_fields(10) [OF c], rule create_alert_fields(3) [OF c], rule len,
        rule st)
qed

theorem escalate_appends_new_alert_witness:
  "reachable after_test_request
   \<and> find_alert ''ALERT_1_20250101_080000'' (alert_history after_test_request) = Some test_alert
   \<and> er_alert_id test_escalation = Some ''ALERT_1_20250101_080000''
   \<and> length (alert_history after_test_request) = 1
   \<and> length (alert_history (snd (escalate_alert mock_env after_test_request test_escalation))) = 2
   \<and> map escalation_level
        (alert_history (snd (escalate_alert mock_env after_test_request test_escalation)))
       = [1, 0]
   \<and> map (\<lambda>a. pi_original_message (patient_info a))
        (alert_history (snd (escalate_alert mock_env after_test_request test_escalation)))
       = [''I have a high fever'', ''ESCALATED: I have a high fever'']"
proof -
  have r: "er_alert_id test_escalation = Some ''ALERT_1_20250101_080000''"
    by (simp add: test_escalation_def)
  have m: "pi_original_message (patient_info test_alert) = ''I have a high fever''"
    and l: "escalation_level test_alert = 0"
    by (simp_all add: test_alert_def)
  from escalate_appends_new_alert
         [OF after_test_request_reachable after_test_request_find r, of mock_env]
  obtain pre post new where
    h: "alert_history after_test_request = pre @ test_alert # post"
    and h': "alert_history (snd (escalate_alert mock_env after_test_request test_escalation)) =
             pre @ test_alert\<lparr>priority := get_or (er_new_priority test_escalation) ''URGENT'',
                     escalation_level := escalation_level test_alert + 1\<rparr> # post @ [new]"
    and n: "escalation_level new = 0"
       "pi_original_message (patient_info new)
          = ''ESCALATED: '' @ pi_original_message (patient_info test_alert)"
    by blast
  from h have e: "pre = []" "post = []"
    by (simp_all add: after_test_request_history Cons_eq_append_conv)
  show ?thesis
    using after_test_request_reachable after_test_request_find r
    by (simp add: h' e n m l after_test_request_history)
qed


section \<open>The history query\<close>

lemma sort_newest_first_sorted:
  "sorted_wrt (\<lambda>x y. timestamp y \<le> timestamp x) (sort_newest_first h)"
proof -
  have "sorted (map timestamp (sort_key timestamp (rev h)))" by (rule sorted_sort_key)
  then have "sorted_wrt (\<lambda>x y. timestamp x \<le> timestamp y) (sort_key timestamp (rev h))"
    by (simp add: sorted_wrt_map)
  then show ?thesis by (simp add: sort_newest_first_def sorted_wrt_rev)
qed

lemma sort_newest_first_mset: "mset (sort_newest_first h) = mset h"
  by (simp add: sort_newest_first_def)

lemma sort_newest_first_stable:
  "filter (\<lambda>a. timestamp a = k) (sort_newest_first h) = filter (\<lambda>a. timestamp a = k) h"
proof -
  have "filter (\<lambda>a. timestamp a = k) (sort_key timestamp (rev h))
          = filter (\<lambda>a. timestamp a = k) (rev h)"
    by (rule sort_key_stable)
  then have "rev (filter (\<lambda>a. timestamp a = k) (sort_key timestamp (rev h)))
          = filter (\<lambda>a. timestamp a = k) h"
    by (simp add: rev_filter)
  then show ?thesis by (simp add: sort_newest_first_def rev_filter)
qed



lemma get_alert_history_unnamed:
  assumes "hr_patient_name rq = None \<or> hr_patient_name rq = Some []"
  shows "get_alert_history s rq =
           (HistorySuccess
              (slice_to (get_or (hr_limit rq) 50) (sort_newest_first (alert_history s)))
              (length (alert_history s))
              (get_or (hr_limit rq) 50),
            s\<lparr>alert_history := sort_newest_first (alert_history s)\<rparr>)"
  using assms
  by (auto simp: get_alert_history_def Let_def sort_newest_first_length)

lemma create_second_alert:
  "create_alert mock_env [test_alert] ''I have a high fever'' (Some test_assessment) test_context
     ''URGENT'' ''2025-01-02T09:30:00'' = Inr second_alert"
  unfolding create_alert_builds [OF test_assessment_strings_only]
  by (simp add: second_alert_def test_alert_def test_assessment_def test_context_def
        entry_get_def get_or_def mock_env_def dec_2)

lemma after_second_request_history:
  "alert_history after_second_request = [test_alert, second_alert]"
proof -
  let ?rq = "test_request\<lparr>req_timestamp := Some ''2025-01-02T09:30:00''\<rparr>"
  have c: "entry_get (req_patient_context ?rq) empty_context = Some test_context"
    by (simp add: test_request_def entry_get_def)
  have "create_alert mock_env (alert_history after_test_request)
          (get_or (req_patient_message ?rq) [])
          (entry_get (req_triage_assessment ?rq) empty_assessment) test_context
          (get_or (req_priority ?rq) ''HIGH'')
          (get_or (req_timestamp ?rq) (now_isoformat mock_env)) = Inr second_alert"
    using create_second_alert
    by (simp add: test_request_def entry_get_def get_or_def after_test_request_history)
  from send_alert_sent(2) [OF c this] show ?thesis
    by (simp add: after_second_request_def after_test_request_history)
qed

lemma after_second_request_reachable: "reachable after_second_request"
  unfolding after_second_request_def by (rule reachable_send) (rule after_test_request_reachable)


lemma sample_alert_timestamps:
  "timestamp test_alert = ''2025-01-01T08:00:00''"
  "timestamp second_alert = ''2025-01-02T09:30:00''"
  by (simp_all add: test_alert_def second_alert_def)

lemma sample_alerts_sorted:
  "sort_newest_first [test_alert, second_alert] = [second_alert, test_alert]"
  by (simp add: sort_newest_first_def sample_alert_timestamps)


lemma sample_alerts_differ: "test_alert \<noteq> second_alert"
proof
  assume "test_alert = second_alert"
  then have "timestamp test_alert = timestamp second_alert" by simp
  then show False by (simp add: sample_alert_timestamps)
qed




text \<open>
  C10: a history query without a patient name (absent or empty) leaves the history of the
  store sorted newest first by timestamp; alerts of equal timestamp keep their order; the
  stored alerts are the same as a multiset, and the directory is untouched. The alerts
  returned are a slice of the store's own reordered list.
\<close>

theorem unfiltered_history_sorts_store:
  assumes "hr_patient_name rq = None \<or> hr_patient_name rq = Some []"
  shows "alert_history (snd (get_alert_history s rq)) = sort_newest_first (alert_history s)
       \<and> sorted_wrt (\<lambda>x y. timestamp y \<le> timestamp x) (alert_history (snd (get_alert_history s rq)))
       \<and> mset (alert_history (snd (get_alert_history s rq))) = mset (alert_history s)
       \<and> filter (\<lambda>a. timestamp a = k) (alert_history (snd (get_alert_history s rq)))
           = filter (\<lambda>a. timestamp a = k) (alert_history s)
       \<and> healthcare_providers (snd (get_alert_history s rq)) = healthcare_providers s
       \<and> hs_alerts (fst (get_alert_history s rq))
           = slice_to (get_or (hr_limit rq) 50) (alert_history (snd (get_alert_history s rq)))"
  unfolding get_alert_history_unnamed [OF assms]
  by (simp add: sort_newest_first_sorted sort_newest_first_mset sort_newest_first_stable)

theorem unfiltered_history_sorts_store_witness:
  "(hr_patient_name \<lparr>hr_limit = None, hr_patient_name = None\<rparr> = None
      \<or> hr_patient_name \<lparr>hr_limit = None, hr_patient_name = None\<rparr> = Some [])
   \<and> reachable after_second_request
   \<and> alert_history after_second_request = [test_alert, second_alert]
   \<and> alert_history (snd (get_alert_history after_second_request
                            \<lparr>hr_limit = None, hr_patient_name = None\<rparr>))
       = [second_alert, test_alert]
   \<and> alert_history (snd (get_alert_history after_second_request
                            \<lparr>hr_limit = None, hr_patient_name = None\<rparr>))
       \<noteq> alert_history after_second_request"
proof -
  let ?rq = "\<lparr>hr_limit = None, hr_patient_name = None\<rparr>"
  have 1: "hr_patient_name ?rq = None \<or> hr_patient_name ?rq = Some []" by simp
  have 2: "alert_history (snd (get_alert_history after_second_request ?rq))
             = [second_alert, test_alert]"
    using unfiltered_history_sorts_store [OF 1, of after_second_request]
    by (simp add: after_second_request_history sample_alerts_sorted)
  have 3: "alert_history (snd (get_alert_history after_second_request ?rq))
             \<noteq> alert_history after_second_request"
    unfolding 2 after_second_request_history using sample_alerts_differ by simp
  show ?thesis
    by (intro conjI)
       (rule 1, rule after_second_request_reachable, rule after_second_request_history,
        rule 2, rule 3)
qed

end
